theory Spec2Isabelle
  imports Complex_Main "HOL-Library.Sublist"
begin

section \<open>Python values\<close>

text \<open>
  The store document (\<^verbatim>\<open>shared_memory.json\<close>) and every record in it are what
  \<^verbatim>\<open>json.loads\<close> produces: \<^verbatim>\<open>None\<close>, booleans, integers, floats, strings, lists and
  dictionaries with string keys. A dictionary is an association list in insertion order.
  Floats are modelled as exact rationals (no NaN, no rounding); strings are lists of
  8-bit characters, so the model speaks about ASCII text.
\<close>

datatype json =
    JNull
  | JBool bool
  | JInt int
  | JFloat rat
  | JStr string
  | JList "json list"
  | JObj "(string \<times> json) list"

type_synonym pydict = "(string \<times> json) list"

text \<open>\<^verbatim>\<open>d.get(k)\<close>: the value, or \<^verbatim>\<open>None\<close> when the key is missing.\<close>

definition py_get :: "pydict \<Rightarrow> string \<Rightarrow> json" where
  "py_get d k = (case map_of d k of None \<Rightarrow> JNull | Some v \<Rightarrow> v)"

text \<open>\<^verbatim>\<open>d[k] = v\<close>: an existing key keeps its position, a new key goes last.\<close>

fun dict_set :: "'k \<Rightarrow> 'v \<Rightarrow> ('k \<times> 'v) list \<Rightarrow> ('k \<times> 'v) list" where
  "dict_set k v [] = [(k, v)]"
| "dict_set k v ((k', v') # d) =
     (if k' = k then (k, v) # d else (k', v') # dict_set k v d)"

text \<open>
  \<^verbatim>\<open>x[k]\<close> with a string key: only a dictionary that has the key answers; a missing key
  (KeyError) and any other container (TypeError) raise, which is \<open>None\<close> here.
\<close>

fun py_getitem :: "json \<Rightarrow> string \<Rightarrow> json option" where
  "py_getitem (JObj d) k = map_of d k"
| "py_getitem _ k = None"

text \<open>
  \<^verbatim>\<open>for x in v\<close>: a list yields its elements, a dictionary its keys, a string its
  characters; anything else raises TypeError (\<open>None\<close>).
\<close>

fun py_iter :: "json \<Rightarrow> json list option" where
  "py_iter (JList xs) = Some xs"
| "py_iter (JObj d) = Some (map (\<lambda>kv. JStr (fst kv)) d)"
| "py_iter (JStr s) = Some (map (\<lambda>c. JStr [c]) s)"
| "py_iter _ = None"

text \<open>
  Python's \<^verbatim>\<open>==\<close>: booleans, integers and floats compare by numeric value
  (\<^verbatim>\<open>True == 1 == 1.0\<close>); everything else compares within its own type. Containers are
  compared structurally here, which is Python's answer whenever the nested numbers have
  the same types on both sides.
\<close>

fun num_of :: "json \<Rightarrow> rat option" where
  "num_of (JBool b) = Some (if b then 1 else 0)"
| "num_of (JInt i) = Some (of_int i)"
| "num_of (JFloat r) = Some r"
| "num_of _ = None"

definition py_eq :: "json \<Rightarrow> json \<Rightarrow> bool" where
  "py_eq a b =
     (case (num_of a, num_of b) of
        (Some x, Some y) \<Rightarrow> x = y
      | _ \<Rightarrow> a = b)"

section \<open>Conversation log: \<^verbatim>\<open>SharedMemory.add_conversation\<close>\<close>

text \<open>
  The duplicate scan of \<^verbatim>\<open>add_conversation\<close>:
  \<^verbatim>\<open>
  for existing in data["conversations"]:
      if (existing.get('message_id') == message_id and
          existing.get('sender_type') == sender_type):
          return
  \<close>
  \<open>Some True\<close> is the early return, \<open>Some False\<close> the end of the loop, and \<open>None\<close> the
  AttributeError of \<^verbatim>\<open>existing.get\<close> on an element that is not a dictionary.
\<close>

fun dup_scan :: "json \<Rightarrow> json \<Rightarrow> json list \<Rightarrow> bool option" where
  "dup_scan mid st [] = Some False"
| "dup_scan mid st (JObj e # es) =
     (if py_eq (py_get e ''message_id'') mid \<and> py_eq (py_get e ''sender_type'') st
      then Some True else dup_scan mid st es)"
| "dup_scan mid st (_ # es) = None"

text \<open>\<^verbatim>\<open>xs[-n:]\<close> for positive \<open>n\<close>: the last \<open>n\<close> elements, all of them when there are fewer.\<close>

definition last_n :: "nat \<Rightarrow> 'a list \<Rightarrow> 'a list" where
  "last_n n xs = drop (length xs - n) xs"

text \<open>
  \<^verbatim>\<open>if 'timestamp' not in message: message['timestamp'] = time.time()\<close>
\<close>

definition stamp :: "rat \<Rightarrow> pydict \<Rightarrow> pydict" where
  "stamp now message =
     (if map_of message ''timestamp'' = None
      then dict_set ''timestamp'' (JFloat now) message else message)"

text \<open>
  What one call of \<^verbatim>\<open>add_conversation\<close> does with the document \<open>data\<close> that
  \<^verbatim>\<open>load_data\<close> returned: \<open>Rejected\<close> is the duplicate's early return (nothing is
  written), \<open>Failed\<close> an exception caught and logged by the method's \<^verbatim>\<open>except\<close>
  (nothing is written either), and \<open>Saved doc\<close> the document handed to \<^verbatim>\<open>save_data\<close>.
\<close>

datatype add_result = Rejected | Failed | Saved json

definition add_conversation_data :: "rat \<Rightarrow> pydict \<Rightarrow> json \<Rightarrow> add_result" where
  "add_conversation_data now message data =
     (let message_id = py_get message ''message_id'';
          sender_type = py_get message ''sender_type''
      in case (if message_id \<noteq> JNull \<and> sender_type \<noteq> JNull
               then (case py_getitem data ''conversations'' of
                       None \<Rightarrow> None
                     | Some convs \<Rightarrow>
                         (case py_iter convs of
                            None \<Rightarrow> None
                          | Some es \<Rightarrow> dup_scan message_id sender_type es))
               else Some False) of
           None \<Rightarrow> Failed
         | Some True \<Rightarrow> Rejected
         | Some False \<Rightarrow>
             (case data of
                JObj d \<Rightarrow>
                  (case map_of d ''conversations'' of
                     Some (JList cs) \<Rightarrow>
                       (let cs1 = cs @ [JObj (stamp now message)];
                            cs2 = (if length cs1 > 1000 then last_n 1000 cs1 else cs1)
                        in Saved (JObj (dict_set ''conversations'' (JList cs2) d)))
                   | _ \<Rightarrow> Failed)
              | _ \<Rightarrow> Failed))"

text \<open>The key of a record, and whether a log already holds a record with that key.\<close>

definition same_key :: "pydict \<Rightarrow> pydict \<Rightarrow> bool" where
  "same_key e m \<longleftrightarrow>
     py_eq (py_get e ''message_id'') (py_get m ''message_id'') \<and>
     py_eq (py_get e ''sender_type'') (py_get m ''sender_type'')"

definition key_present :: "json list \<Rightarrow> pydict \<Rightarrow> bool" where
  "key_present cs m = list_ex (\<lambda>c. case c of JObj e \<Rightarrow> same_key e m | _ \<Rightarrow> False) cs"

definition all_dicts :: "json list \<Rightarrow> bool" where
  "all_dicts cs = list_all (\<lambda>c. case c of JObj e \<Rightarrow> True | _ \<Rightarrow> False) cs"

section \<open>Text primitives\<close>

text \<open>\<^verbatim>\<open>str.lower()\<close> on ASCII letters; every other character is left as it is.\<close>

definition lower_char :: "char \<Rightarrow> char" where
  "lower_char c =
     (case map_of (zip ''ABCDEFGHIJKLMNOPQRSTUVWXYZ'' ''abcdefghijklmnopqrstuvwxyz'') c of
        Some l \<Rightarrow> l
      | None \<Rightarrow> c)"

definition lower :: "string \<Rightarrow> string" where
  "lower s = map lower_char s"

text \<open>
  The ASCII characters for which \<^verbatim>\<open>str.isspace()\<close> holds: space, tab, newline, vertical
  tab, form feed, carriage return and the four separators \<^verbatim>\<open>\x1c\<close> to \<^verbatim>\<open>\x1f\<close>.
\<close>

definition is_space :: "char \<Rightarrow> bool" where
  "is_space c \<longleftrightarrow>
     c \<in> set [CHR '' '', CHR 0x09, CHR 0x0A, CHR 0x0B, CHR 0x0C, CHR 0x0D,
              CHR 0x1C, CHR 0x1D, CHR 0x1E, CHR 0x1F]"

text \<open>\<^verbatim>\<open>s.split()\<close>: the maximal runs of non-whitespace characters, in order.\<close>

fun words_from :: "string \<Rightarrow> string \<Rightarrow> string list" where
  "words_from cur [] = (if cur = [] then [] else [cur])"
| "words_from cur (c # cs) =
     (if is_space c
      then (if cur = [] then words_from [] cs else cur # words_from [] cs)
      else words_from (cur @ [c]) cs)"

definition py_split :: "string \<Rightarrow> string list" where
  "py_split s = words_from [] s"

text \<open>\<^verbatim>\<open>s.strip()\<close>\<close>

definition py_strip :: "string \<Rightarrow> string" where
  "py_strip s = rev (dropWhile is_space (rev (dropWhile is_space s)))"

text \<open>\<^verbatim>\<open>sub in s\<close> for strings: \<open>sub\<close> occurs in \<open>s\<close> as a contiguous run.\<close>

definition str_in :: "string \<Rightarrow> string \<Rightarrow> bool" where
  "str_in sub s = sublist sub s"

text \<open>\<^verbatim>\<open>s.endswith("?")\<close>\<close>

definition ends_with_qmark :: "string \<Rightarrow> bool" where
  "ends_with_qmark s \<longleftrightarrow> s \<noteq> [] \<and> last s = CHR ''?''"

text \<open>Python's truth value of a JSON value.\<close>

fun py_truthy :: "json \<Rightarrow> bool" where
  "py_truthy JNull = False"
| "py_truthy (JBool b) = b"
| "py_truthy (JInt i) = (i \<noteq> 0)"
| "py_truthy (JFloat r) = (r \<noteq> 0)"
| "py_truthy (JStr s) = (s \<noteq> [])"
| "py_truthy (JList xs) = (xs \<noteq> [])"
| "py_truthy (JObj d) = (d \<noteq> [])"

section \<open>Regular expressions of the spam filter\<close>

text \<open>
  The spam patterns of \<^verbatim>\<open>process_message_interest_after_delay\<close> use four constructs only: a
  literal run of characters, \<^verbatim>\<open>.*\<close>, \<^verbatim>\<open>\d+\<close> and an optional character (\<^verbatim>\<open>s?\<close>). A pattern
  is the list of its atoms. Literals are kept in lower case, since every search is done
  with \<^verbatim>\<open>re.IGNORECASE\<close>. \<^verbatim>\<open>.\<close> matches every character but the newline.
\<close>

datatype rx_atom = Lit string | AnyStar | Digits | Opt char

definition is_digit :: "char \<Rightarrow> bool" where
  "is_digit c \<longleftrightarrow> c \<in> set ''0123456789''"

text \<open>\<open>rx_match p s\<close>: the pattern matches a prefix of \<open>s\<close>.\<close>

fun rx_match :: "rx_atom list \<Rightarrow> string \<Rightarrow> bool" where
  "rx_match [] s = True"
| "rx_match (Lit l # p) s =
     (if length l \<le> length s \<and> lower (take (length l) s) = l
      then rx_match p (drop (length l) s) else False)"
| "rx_match (AnyStar # p) s =
     (if rx_match p s then True
      else (case s of
              [] \<Rightarrow> False
            | c # cs \<Rightarrow> if c = CHR 0x0A then False else rx_match (AnyStar # p) cs))"
| "rx_match (Digits # p) s =
     (case s of
        [] \<Rightarrow> False
      | c # cs \<Rightarrow>
          if is_digit c
          then (if rx_match p cs then True else rx_match (Digits # p) cs)
          else False)"
| "rx_match (Opt x # p) s =
     (if (case s of [] \<Rightarrow> False | c # cs \<Rightarrow> if lower_char c = x then rx_match p cs else False)
      then True else rx_match p s)"

text \<open>\<^verbatim>\<open>re.search(pattern, s, re.IGNORECASE)\<close>: the pattern matches at some position of \<open>s\<close>.\<close>

fun re_search :: "rx_atom list \<Rightarrow> string \<Rightarrow> bool" where
  "re_search p [] = rx_match p []"
| "re_search p (c # cs) = (if rx_match p (c # cs) then True else re_search p cs)"

text \<open>
  \<^verbatim>\<open>for x in xs: if P(x): ... break\<close> and \<^verbatim>\<open>any(P(x) for x in xs)\<close>: the elements are tried in
  order up to the first that satisfies \<open>P\<close>.
\<close>

fun any_of :: "('a \<Rightarrow> bool) \<Rightarrow> 'a list \<Rightarrow> bool" where
  "any_of P [] = False"
| "any_of P (x # xs) = (if P x then True else any_of P xs)"

text \<open>
  The table \<^verbatim>\<open>spam_patterns\<close>, in the order of the source. The seventh pattern starts with
  four non-ASCII characters (a mis-decoded emoji); they are written here as the bytes of
  their UTF-8 encoding, so that no ASCII text matches this entry.
\<close>

definition spam_patterns :: "rx_atom list list" where
  "spam_patterns =
    [[Lit ''forwarded from'', AnyStar],
     [AnyStar, Lit ''booost'', Opt CHR ''s'', Lit '':'', AnyStar],
     [AnyStar, Lit ''raid'', AnyStar, Lit ''for'', AnyStar, Lit ''evan'', AnyStar],
     [AnyStar, Lit ''raid'', AnyStar],
     [AnyStar, Lit ''raid'', AnyStar, Lit ''evan'', AnyStar],
     [AnyStar, Lit ''evan'', AnyStar, Lit ''raid'', AnyStar],
     [AnyStar,
      Lit ([CHR 0xC3, CHR 0xB0, CHR 0xC5, CHR 0xB8, CHR 0xE2, CHR 0x80, CHR 0x99, CHR 0xC2,
            CHR 0xB0] @ '' forwarded from''), AnyStar],
     [AnyStar, Lit ''$evan | lord of degens'', AnyStar],
     [AnyStar, Lit ''evanraiderbot'', AnyStar],
     [AnyStar, Lit ''ruginaha:'', AnyStar],
     [Lit ''forwarded message''],
     [AnyStar, Lit ''forwarded message'', AnyStar],
     [AnyStar, Lit ''t.me/'', AnyStar],
     [AnyStar, Lit ''https://x.com/'', AnyStar],
     [AnyStar, Lit ''likes '', Digits, Lit '' | '', Digits, AnyStar],
     [AnyStar, Lit ''retweets '', Digits, Lit '' | '', Digits, AnyStar],
     [AnyStar, Lit ''replies '', Digits, Lit '' | '', Digits, AnyStar],
     [AnyStar, Lit ''tg://resolve?domain='', AnyStar],
     [AnyStar, Lit ''airdrop'', AnyStar, Lit ''.com'', AnyStar],
     [AnyStar, Lit ''giveaway'', AnyStar, Lit ''.com'', AnyStar],
     [AnyStar, Lit ''promo'', AnyStar, Lit ''.com'', AnyStar],
     [AnyStar, Lit ''token'', AnyStar, Lit ''sale'', AnyStar, Lit ''.com'', AnyStar],
     [AnyStar, Lit ''flooz.io'', AnyStar],
     [AnyStar, Lit ''raydium.io'', AnyStar, Lit ''pump'', AnyStar]]"

definition suspicious_patterns :: "string list" where
  "suspicious_patterns =
     [''forwarded'', ''boost'', ''raid'', ''promotion'', ''vote'', ''bot'', ''airdrop'',
      ''giveaway'']"

text \<open>
  The coordinator-level spam filter: the pattern loop, then the check for a mention of
  \<^verbatim>\<open>$evan\<close> or \<^verbatim>\<open>evan\<close> together with a suspicious word.
\<close>

definition is_spam :: "string \<Rightarrow> bool" where
  "is_spam message_text =
     (if any_of (\<lambda>pattern. re_search pattern message_text) spam_patterns then True
      else if (str_in ''$evan'' (lower message_text) \<or> str_in ''evan'' (lower message_text))
           \<and> any_of (\<lambda>pattern. str_in pattern (lower message_text)) suspicious_patterns
      then True
      else False)"

section \<open>The agents and their names\<close>

text \<open>
  \<^verbatim>\<open>bots\<close> is the dictionary from bot id to handler, in insertion order; of a handler the
  router reads \<^verbatim>\<open>personality['name']\<close> only, so a handler is its name.
\<close>

type_synonym bots = "(string \<times> string) list"

definition has_bot :: "string \<Rightarrow> bots \<Rightarrow> bool" where
  "has_bot b bots \<longleftrightarrow> map_of bots b \<noteq> None"

definition is_bot_name_mentioned :: "string \<Rightarrow> string \<Rightarrow> bots \<Rightarrow> bool" where
  "is_bot_name_mentioned bot_id message_text bots =
     (case map_of bots bot_id of
        None \<Rightarrow> False
      | Some name \<Rightarrow>
          if message_text = [] then False
          else
            let message_text_lower = lower message_text in
            if str_in (lower name) message_text_lower then True
            else if bot_id = ''bot1''
              then ''max'' \<in> set (py_split message_text_lower) \<or>
                   ''btc'' \<in> set (py_split message_text_lower)
            else if bot_id = ''bot2''
              then ''evan'' \<in> set (py_split message_text_lower) \<or>
                   ''$evan'' \<in> set (py_split message_text_lower)
            else if bot_id = ''bot3''
              then ''goldy'' \<in> set (py_split message_text_lower) \<or>
                   ''goldilocks'' \<in> set (py_split message_text_lower)
            else False)"

definition personality_mentions_bot :: "string \<Rightarrow> string \<Rightarrow> bots \<Rightarrow> bool" where
  "personality_mentions_bot message_text bot_id bots =
     (if message_text = [] \<or> \<not> has_bot bot_id bots then False
      else
        let message_lower = lower message_text in
        if bot_id = ''bot1''
          then any_of (\<lambda>indicator. str_in indicator message_lower)
                 [''bitcoin'', ''btc'', ''crypto'', ''trading'', ''hodl'', ''chart'',
                  ''conference'', ''wharton'', ''miami'', ''tesla'', ''f1'']
        else if bot_id = ''bot2''
          then any_of (\<lambda>indicator. str_in indicator message_lower)
                 [''liquidity'', ''cat'', ''degen'', ''storage'', ''unit'', ''hobo'',
                  ''ramen'', ''energy drink'', ''rugpull'', ''rug'', ''wallet'']
        else if bot_id = ''bot3''
          then any_of (\<lambda>indicator. str_in indicator message_lower)
                 [''gold'', ''kids'', ''family'', ''children'', ''goldilocks'', ''balance'',
                  ''portfolio'', ''husband'', ''david'', ''emma'', ''jackson'', ''lily'']
        else False)"

section \<open>General requests\<close>

definition request_phrases :: "string list" where
  "request_phrases =
     [''can someone'', ''can anyone'', ''anyone know'', ''get me'', ''find me'', ''show me'',
      ''check on'', ''tell me'', ''look up'', ''search for'', ''what are'', ''whats'',
      ''what's'', ''what is happening'', ''what's happening'', ''whats happening'',
      ''what is going on'', ''what's going on'', ''whats going on'',
      ''update on'', ''latest on'', ''news from'', ''news on'', ''anything new'',
      ''any news'', ''so any'', ''give me'', ''who knows'', ''you guys'',
      ''what about'', ''trenches'', ''updates'', ''anyone here'', ''somebody'',
      ''search'', ''look up'', ''find'', ''get info'', ''information on'', ''details about'',
      ''latest news'', ''recent news'', ''news about'', ''news now'', ''rugs'', ''rug pulls'',
      ''find news'', ''search news'', ''get news'', ''crypto news'']"

definition question_starters :: "string list" where
  "question_starters =
     [''what'', ''how'', ''who'', ''where'', ''why'', ''when'', ''is'', ''are'', ''can'',
      ''could'', ''do'', ''does'', ''has'', ''have'', ''should'', ''would'']"

definition is_general_request :: "string \<Rightarrow> bool" where
  "is_general_request text =
     (let text_lower = py_strip (lower text);
          words = py_split text_lower;
          first_word = (case words of [] \<Rightarrow> [] | w # _ \<Rightarrow> w)
      in if any_of (\<lambda>phrase. str_in phrase text_lower) request_phrases then True
         else if first_word \<in> set question_starters then True
         else if ends_with_qmark text then True
         else if str_in ''trenches'' text_lower then True
         else if 2 \<le> length words \<and> length words \<le> 5 \<and>
                 \<not> any_of (\<lambda>word. word \<in> set [''hi'', ''hello'', ''hey'', ''lol'', ''haha'',
                                                ''nice'', ''cool'', ''wow'']) words
           then True
         else False)"

section \<open>The routing pipeline: \<^verbatim>\<open>process_message_interest_after_delay\<close>\<close>

text \<open>
  An interest report, with the fields the coordinator reads. A missing or \<^verbatim>\<open>None\<close>
  \<^verbatim>\<open>replied_to_message_id\<close> is \<open>None\<close>.
\<close>

record interest_report =
  rep_message_id :: int
  rep_bot_id :: string
  rep_is_interested :: bool
  rep_is_personal_question :: bool
  rep_user_id :: int
  rep_username :: string
  rep_message_text :: string
  rep_replied_to_message_id :: "int option"

text \<open>
  The three draws of the shared random source that one run can consume:
  \<^verbatim>\<open>assignment_choice = random.random()\<close>, the \<^verbatim>\<open>random.random() < 0.3\<close> of the short-message
  fallback, and the index that \<^verbatim>\<open>random.choice(available_bot_ids)\<close> picks.
\<close>

record rng =
  assignment_choice :: rat
  short_message_draw :: rat
  choice_index :: nat

text \<open>
  \<open>responding_bots\<close> and \<open>assignment_reason\<close>; the reason is \<open>None\<close> as long as the Python
  variable is unbound.
\<close>

type_synonym selection = "string list \<times> string option"

text \<open>
  What a run leaves behind: \<open>Done tasks cleared\<close> gives the response tasks created, as
  (bot id, assignment reason) in creation order, and whether the run deleted the message's
  entry of \<^verbatim>\<open>pending_interest_reports\<close>; \<open>Crashed\<close> is an exception caught and logged by the
  function's outer \<^verbatim>\<open>except\<close>, with no task created and the entry left in place.
\<close>

datatype pipeline_result = Done "(string \<times> string) list" bool | Crashed

text \<open>
  \<^verbatim>\<open>if replied_to_message_id:\<close> holds for an id that is present and not zero; \<open>truthy_id\<close>
  gives that id.
\<close>

fun truthy_id :: "int option \<Rightarrow> int option" where
  "truthy_id None = None"
| "truthy_id (Some i) = (if i \<noteq> 0 then Some i else None)"

text \<open>
  The first lookup of the reply check, over \<^verbatim>\<open>get_recent_conversations(500)\<close>:
  \<^verbatim>\<open>
  for msg in recent_conversations:
      if msg.get("message_id") == replied_to_message_id:
          sender_type = msg.get("sender_type")
          sender_id = msg.get("sender_id")
          if sender_type == "bot" and sender_id:
              replied_to_bot_id = sender_id
              break
  \<close>
  The result is \<open>replied_to_bot_id\<close> (\<open>JNull\<close> when nothing was found), or \<open>None\<close> for the
  AttributeError of \<^verbatim>\<open>msg.get\<close> on an entry that is not a dictionary.
\<close>

fun find_replied_bot :: "int \<Rightarrow> json list \<Rightarrow> json option" where
  "find_replied_bot rid [] = Some JNull"
| "find_replied_bot rid (JObj msg # rest) =
     (if py_eq (py_get msg ''message_id'') (JInt rid)
      then (if py_eq (py_get msg ''sender_type'') (JStr ''bot'') \<and>
               py_truthy (py_get msg ''sender_id'')
            then Some (py_get msg ''sender_id'')
            else find_replied_bot rid rest)
      else find_replied_bot rid rest)"
| "find_replied_bot rid (_ # rest) = None"

text \<open>
  The test of that loop on one stored message: it carries the id, its \<^verbatim>\<open>sender_type\<close> is
  \<^verbatim>\<open>bot\<close> and its \<^verbatim>\<open>sender_id\<close> is not empty. \<open>no_bot_author rid cs\<close> says that every entry of
  \<open>cs\<close> is a dictionary that fails the test.
\<close>

definition bot_authored :: "int \<Rightarrow> pydict \<Rightarrow> bool" where
  "bot_authored rid msg \<longleftrightarrow>
     py_eq (py_get msg ''message_id'') (JInt rid) \<and>
     py_eq (py_get msg ''sender_type'') (JStr ''bot'') \<and>
     py_truthy (py_get msg ''sender_id'')"

definition no_bot_author :: "int \<Rightarrow> json list \<Rightarrow> bool" where
  "no_bot_author rid cs =
     list_all (\<lambda>c. case c of JObj msg \<Rightarrow> \<not> bot_authored rid msg | _ \<Rightarrow> False) cs"

text \<open>
  The inner loop of the second lookup: the first bot, in the order of \<^verbatim>\<open>bots\<close>, that the
  message text names.
\<close>

definition likely_sender :: "string \<Rightarrow> bots \<Rightarrow> string option" where
  "likely_sender message_text bots =
     find (\<lambda>bot_id. str_in (''message from '' @ bot_id) (lower message_text) \<or>
                    is_bot_name_mentioned bot_id message_text bots)
          (map fst bots)"

text \<open>
  The second lookup, run when the first found nothing: every stored bot message that
  replied to the same id sets \<open>replied_to_bot_id\<close> to the likely sender, if there is one.
  The outer loop has no \<^verbatim>\<open>break\<close>, so it visits every entry.
\<close>

fun infer_replied_bot :: "int \<Rightarrow> string \<Rightarrow> bots \<Rightarrow> json \<Rightarrow> json list \<Rightarrow> json option" where
  "infer_replied_bot rid message_text bots cur [] = Some cur"
| "infer_replied_bot rid message_text bots cur (JObj msg # rest) =
     (if py_eq (py_get msg ''in_reply_to'') (JInt rid) \<and>
         py_eq (py_get msg ''sender_type'') (JStr ''bot'')
      then infer_replied_bot rid message_text bots
             (case likely_sender message_text bots of
                Some bot_id \<Rightarrow> JStr bot_id
              | None \<Rightarrow> cur) rest
      else infer_replied_bot rid message_text bots cur rest)"
| "infer_replied_bot rid message_text bots cur (_ # rest) = None"

text \<open>
  \<^verbatim>\<open>x in bots\<close> for a value read from the store: a string is looked up, a list or a dictionary
  is unhashable (TypeError, \<open>None\<close>), any other value is no key of \<^verbatim>\<open>bots\<close>.
\<close>

fun value_in_bots :: "json \<Rightarrow> bots \<Rightarrow> bool option" where
  "value_in_bots (JStr s) bots = Some (has_bot s bots)"
| "value_in_bots (JList xs) bots = None"
| "value_in_bots (JObj d) bots = None"
| "value_in_bots _ bots = Some False"

definition direct_reply_reason :: "string \<Rightarrow> string" where
  "direct_reply_reason replied_to_bot_id =
     (if replied_to_bot_id = ''bot1'' then ''direct_reply_to_btcmax''
      else if replied_to_bot_id = ''bot2'' then ''direct_reply_to_evan''
      else if replied_to_bot_id = ''bot3'' then ''direct_reply_to_goldilocks''
      else ''direct_reply_to_bot'')"

text \<open>
  The content-based fallback of the reply check: the first bot whose name or id occurs in
  the text.
\<close>

definition content_mention_fallback :: "string \<Rightarrow> bots \<Rightarrow> selection" where
  "content_mention_fallback message_text bots =
     (case find (\<lambda>(bot_id, bot_name).
                   str_in (lower bot_name) (lower message_text) \<or>
                   str_in (lower bot_id) (lower message_text)) bots of
        Some (bot_id, bot_name) \<Rightarrow> ([bot_id], Some ''content_mention_fallback'')
      | None \<Rightarrow> ([], None))"

text \<open>
  The branch \<^verbatim>\<open>elif replied_to_message_id:\<close>. \<open>Inl r\<close> is a \<^verbatim>\<open>return\<close> (or a crash) inside the
  branch, \<open>Inr sel\<close> the selection with which the function goes on.
\<close>

definition reply_to_bot_check ::
  "int \<Rightarrow> string \<Rightarrow> bots \<Rightarrow> json list \<Rightarrow> pipeline_result + selection" where
  "reply_to_bot_check replied_to_message_id message_text bots recent_conversations =
     (case find_replied_bot replied_to_message_id recent_conversations of
        None \<Rightarrow> Inl Crashed
      | Some found \<Rightarrow>
          (case (if \<not> py_truthy found
                 then infer_replied_bot replied_to_message_id message_text bots found
                        recent_conversations
                 else Some found) of
             None \<Rightarrow> Inl Crashed
           | Some replied_to_bot_id \<Rightarrow>
               (case (if py_truthy replied_to_bot_id
                      then value_in_bots replied_to_bot_id bots else Some False) of
                  None \<Rightarrow> Inl Crashed
                | Some True \<Rightarrow>
                    (case replied_to_bot_id of
                       JStr b \<Rightarrow> Inl (Done [(b, direct_reply_reason b)] True)
                     | _ \<Rightarrow> Inl Crashed)
                | Some False \<Rightarrow> Inr (content_mention_fallback message_text bots))))"

text \<open>
  Bot name mention routing: the list \<open>mentioned_bots\<close> collects, in the order of \<^verbatim>\<open>bots\<close>,
  every bot that \<open>is_bot_name_mentioned\<close> accepts and that is not yet in the list.
\<close>

fun collect_mentioned :: "string \<Rightarrow> bots \<Rightarrow> string list \<Rightarrow> string list \<Rightarrow> string list" where
  "collect_mentioned message_text bots mentioned_bots [] = mentioned_bots"
| "collect_mentioned message_text bots mentioned_bots (bot_id # rest) =
     collect_mentioned message_text bots
       (if is_bot_name_mentioned bot_id message_text bots \<and> bot_id \<notin> set mentioned_bots
        then mentioned_bots @ [bot_id] else mentioned_bots) rest"

definition bot_name_mention_routing :: "string \<Rightarrow> bots \<Rightarrow> selection" where
  "bot_name_mention_routing message_text bots =
     (let mentioned_bots = collect_mentioned message_text bots [] (map fst bots)
      in if length mentioned_bots = 1 then ([hd mentioned_bots], Some ''name_mention'')
         else if length mentioned_bots > 1 then (mentioned_bots, Some ''multiple_name_mentions'')
         else ([], None))"

text \<open>Interest-based routing, with the priority bot1, bot3, bot2.\<close>

definition interest_based_routing :: "(string \<times> interest_report) list \<Rightarrow> selection" where
  "interest_based_routing reports =
     (let truly_interested_bots = map fst (filter (\<lambda>(bot_id, report). rep_is_interested report) reports)
      in if truly_interested_bots \<noteq> [] then
           (if ''bot1'' \<in> set truly_interested_bots then ([''bot1''], Some ''interest_priority_bot1'')
            else if ''bot3'' \<in> set truly_interested_bots then ([''bot3''], Some ''interest_priority_bot3'')
            else if ''bot2'' \<in> set truly_interested_bots then ([''bot2''], Some ''interest_priority_bot2'')
            else ([hd truly_interested_bots], None))
         else ([], None))"

text \<open>General request routing, entered with an empty selection only.\<close>

definition general_request_routing :: "rng \<Rightarrow> string \<Rightarrow> bots \<Rightarrow> selection \<Rightarrow> selection" where
  "general_request_routing rnd message_text bots sel =
     (if fst sel \<noteq> [] then sel
      else if is_general_request message_text then
        (if assignment_choice rnd < 7 / 10 \<and> has_bot ''bot2'' bots
           then ([''bot2''], Some ''general_request'')
         else if assignment_choice rnd < 85 / 100 \<and> has_bot ''bot1'' bots
           then ([''bot1''], Some ''general_request'')
         else if has_bot ''bot3'' bots
           then ([''bot3''], Some ''general_request'')
         else (let available_bot_ids = map fst bots
               in if available_bot_ids \<noteq> []
                  then ([available_bot_ids ! (choice_index rnd mod length available_bot_ids)],
                        Some ''general_request_fallback'')
                  else sel))
      else if length (py_split message_text) \<le> 5 \<and> has_bot ''bot2'' bots \<and>
              short_message_draw rnd < 3 / 10
        then ([''bot2''], Some ''random_short_message_fallback'')
      else sel)"

text \<open>
  The reply fallback of the final check, over \<^verbatim>\<open>get_recent_conversations(1000)\<close>: every
  stored bot message with the replied-to id whose sender is a known bot overwrites the
  selection (no \<^verbatim>\<open>break\<close>).
\<close>

fun direct_reply_fallback :: "int \<Rightarrow> bots \<Rightarrow> selection \<Rightarrow> json list \<Rightarrow> selection option" where
  "direct_reply_fallback rid bots sel [] = Some sel"
| "direct_reply_fallback rid bots sel (JObj msg # rest) =
     (if py_eq (py_get msg ''message_id'') (JInt rid) \<and>
         py_eq (py_get msg ''sender_type'') (JStr ''bot'')
      then (case (if py_truthy (py_get msg ''sender_id'')
                  then value_in_bots (py_get msg ''sender_id'') bots else Some False) of
              None \<Rightarrow> None
            | Some True \<Rightarrow>
                (case py_get msg ''sender_id'' of
                   JStr b \<Rightarrow> direct_reply_fallback rid bots ([b], Some ''direct_reply_fallback'') rest
                 | _ \<Rightarrow> None)
            | Some False \<Rightarrow> direct_reply_fallback rid bots sel rest)
      else direct_reply_fallback rid bots sel rest)"
| "direct_reply_fallback rid bots sel (_ # rest) = None"

definition reply_phrases :: "string list" where
  "reply_phrases =
     [''glad you'', ''why did you'', ''how did you'', ''tell me more'', ''when did you'',
      ''where did you'', ''glad to hear'', ''that's great'', ''that's good'',
      ''congratulations'', ''congrats'', ''thanks for'', ''thank you for'', ''appreciate your'',
      ''interesting point'', ''good point'', ''nice to hear'', ''sorry to hear'',
      ''that's too bad'']"

definition reply_content_fallback :: "string \<Rightarrow> bots \<Rightarrow> selection" where
  "reply_content_fallback message_text bots =
     (case find (\<lambda>bot_id. is_bot_name_mentioned bot_id message_text bots \<or>
                          personality_mentions_bot message_text bot_id bots) (map fst bots) of
        Some bot_id \<Rightarrow> ([bot_id], Some ''content_reference_fallback'')
      | None \<Rightarrow>
          if str_in ''liquidity'' (lower message_text) \<and> str_in ''cat'' (lower message_text) \<and>
             has_bot ''bot2'' bots
            then ([''bot2''], Some ''liquidity_cat_fallback'')
          else if any_of (\<lambda>phrase. str_in phrase (lower message_text)) reply_phrases \<and>
                  has_bot ''bot2'' bots
            then ([''bot2''], Some ''reply_phrase_fallback'')
          else ([], None))"

definition search_keywords :: "string list" where
  "search_keywords =
     [''search'', ''find'', ''look up'', ''check'', ''news'', ''info'', ''current'', ''latest'',
      ''update'', ''price'', ''rugs'', ''status'']"

definition search_keyword_fallback :: "string \<Rightarrow> bots \<Rightarrow> selection \<Rightarrow> selection" where
  "search_keyword_fallback message_text bots sel =
     (let message_words = py_split (lower message_text)
      in if any_of (\<lambda>keyword. keyword \<in> set message_words) search_keywords then
           (if has_bot ''bot2'' bots then ([''bot2''], Some ''search_keyword_fallback'')
            else if has_bot ''bot1'' bots then ([''bot1''], Some ''search_keyword_fallback'')
            else if has_bot ''bot3'' bots then ([''bot3''], Some ''search_keyword_fallback'')
            else sel)
         else sel)"

text \<open>
  The loop that creates the response tasks: one task for every selected bot that is a key of
  \<^verbatim>\<open>bots\<close>. Formatting the log line of the first task with an unbound
  \<open>assignment_reason\<close> is a NameError.
\<close>

definition trigger_selected :: "bots \<Rightarrow> selection \<Rightarrow> pipeline_result" where
  "trigger_selected bots sel =
     (let known = filter (\<lambda>bot_id. has_bot bot_id bots) (fst sel)
      in if known = [] then Done [] False
         else (case snd sel of
                 None \<Rightarrow> Crashed
               | Some assignment_reason \<Rightarrow>
                   Done (map (\<lambda>bot_id. (bot_id, assignment_reason)) known) False))"

text \<open>
  The final check (entered with the selection left by the stages before it) and the
  dispatch.
\<close>

definition final_check ::
  "string \<Rightarrow> int option \<Rightarrow> bots \<Rightarrow> (nat \<Rightarrow> json list) \<Rightarrow> selection \<Rightarrow> pipeline_result" where
  "final_check message_text replied_to_message_id bots get_recent_conversations sel =
     (if fst sel \<noteq> [] then trigger_selected bots sel
      else
        (case (case truthy_id replied_to_message_id of
                 Some rid \<Rightarrow>
                   (case direct_reply_fallback rid bots sel (get_recent_conversations 1000) of
                      None \<Rightarrow> None
                    | Some sel1 \<Rightarrow>
                        Some (if fst sel1 = [] then reply_content_fallback message_text bots
                              else sel1))
               | None \<Rightarrow> Some sel) of
           None \<Rightarrow> Crashed
         | Some sel2 \<Rightarrow>
             (let sel3 = (if fst sel2 = [] then search_keyword_fallback message_text bots sel2
                          else sel2)
              in if fst sel3 = [] then Done [] False
                 else trigger_selected bots sel3)))"

text \<open>
  The chain \<^verbatim>\<open>if "$evan" ... elif replied_to_message_id ... elif not responding_bots ...
  elif not responding_bots ...\<close>, entered with \<open>responding_bots = []\<close>. The two last conditions
  are the same test of the same, still empty, list.
\<close>

definition routing_chain ::
  "string \<Rightarrow> int option \<Rightarrow> bots \<Rightarrow> (nat \<Rightarrow> json list) \<Rightarrow> (string \<times> interest_report) list \<Rightarrow>
   pipeline_result + selection" where
  "routing_chain message_text replied_to_message_id bots get_recent_conversations reports =
     (let responding_bots = ([] :: string list) in
      if str_in ''$evan'' (lower message_text) \<and> has_bot ''bot2'' bots
        then Inr ([''bot2''], Some ''$evan_token_mention'')
      else (case truthy_id replied_to_message_id of
              Some rid \<Rightarrow>
                reply_to_bot_check rid message_text bots (get_recent_conversations 500)
            | None \<Rightarrow>
                if responding_bots = []
                  then Inr (bot_name_mention_routing message_text bots)
                else if responding_bots = []
                  then Inr (interest_based_routing reports)
                else Inr (responding_bots, None)))"

definition process_message_interest_after_delay ::
  "rng \<Rightarrow> bots \<Rightarrow> (nat \<Rightarrow> json list) \<Rightarrow> (string \<times> interest_report) list \<Rightarrow> pipeline_result" where
  "process_message_interest_after_delay rnd bots get_recent_conversations reports =
     (case reports of
        [] \<Rightarrow> Done [] False
      | (first_bot_id, first_report) # _ \<Rightarrow>
          (let message_text = rep_message_text first_report;
               replied_to_message_id = rep_replied_to_message_id first_report
           in if is_spam message_text then Done [] True
              else
                (let personal_question_reports =
                       filter (\<lambda>(bot_id, report). rep_is_personal_question report) reports
                 in if personal_question_reports \<noteq> [] then
                      Done (map (\<lambda>bot_id. (bot_id, ''personal_question''))
                              (filter (\<lambda>bot_id. has_bot bot_id bots)
                                 (map fst personal_question_reports))) True
                    else
                      (case routing_chain message_text replied_to_message_id bots
                              get_recent_conversations reports of
                         Inl r \<Rightarrow> r
                       | Inr sel \<Rightarrow>
                           final_check message_text replied_to_message_id bots
                             get_recent_conversations
                             (general_request_routing rnd message_text bots sel)))))"

section \<open>The coordinator: \<^verbatim>\<open>coordinate_user_responses\<close> and its timers\<close>

text \<open>
  An entry of \<^verbatim>\<open>pending_interest_reports\<close>: the reports by bot id, and whether
  \<^verbatim>\<open>timer_handle\<close> is set (it is \<^verbatim>\<open>None\<close> in a fresh entry of the \<^verbatim>\<open>defaultdict\<close>).
\<close>

record bucket =
  bk_reports :: "(string \<times> interest_report) list"
  bk_timer_handle :: bool

text \<open>
  The coordinator's state: the dictionary \<^verbatim>\<open>pending_interest_reports\<close>, and the timers that
  \<^verbatim>\<open>loop.call_later\<close> has armed and that have not fired yet, by message id. Three logs are
  kept beside it to state properties: the message ids for which a timer was started, those
  for which \<^verbatim>\<open>process_message_interest_after_delay\<close> was invoked, and those whose invocation
  deleted the entry.
\<close>

record coordinator =
  pending_interest_reports :: "int \<rightharpoonup> bucket"
  armed_timers :: "int list"
  log_started :: "int list"
  log_invoked :: "int list"
  log_cleared :: "int list"


text \<open>The guard that drops a report of bot2 before it is stored.\<close>

definition evan_protection :: "interest_report \<Rightarrow> bool" where
  "evan_protection report =
     (let message_text = lower (rep_message_text report)
      in rep_bot_id report = ''bot2'' \<and>
         (str_in ''evan'' message_text \<or> str_in ''$evan'' message_text) \<and>
         any_of (\<lambda>term. str_in term message_text)
           [''raid'', ''forward'', ''boost'', ''vote'', ''promotion'', ''bot'', ''airdrop''])"

text \<open>
  One turn of the loop of \<^verbatim>\<open>coordinate_user_responses\<close>: the report is stored under its
  bot id, and a timer is started if the entry has none.
\<close>

definition receive_report :: "interest_report \<Rightarrow> coordinator \<Rightarrow> coordinator" where
  "receive_report report s =
     (if evan_protection report then s
      else
        (let message_id = rep_message_id report;
             message_reports =
               (case pending_interest_reports s message_id of
                  None \<Rightarrow> \<lparr>bk_reports = [], bk_timer_handle = False\<rparr>
                | Some b \<Rightarrow> b);
             stored = message_reports
               \<lparr>bk_reports := dict_set (rep_bot_id report) report (bk_reports message_reports)\<rparr>
         in if \<not> bk_timer_handle stored
            then s\<lparr>pending_interest_reports :=
                     (pending_interest_reports s)(message_id \<mapsto> stored\<lparr>bk_timer_handle := True\<rparr>),
                   armed_timers := armed_timers s @ [message_id],
                   log_started := log_started s @ [message_id]\<rparr>
            else s\<lparr>pending_interest_reports :=
                     (pending_interest_reports s)(message_id \<mapsto> stored)\<rparr>))"

text \<open>
  An armed timer of \<open>message_id\<close> fires: \<^verbatim>\<open>process_message_interest_after_delay\<close> runs on the
  reports found in the entry (none when there is no entry) and deletes the entry where
  its result says so. Without an armed timer for \<open>message_id\<close> nothing happens.
\<close>

definition timer_fires ::
  "bots \<Rightarrow> int \<Rightarrow> rng \<Rightarrow> (nat \<Rightarrow> json list) \<Rightarrow> coordinator \<Rightarrow> coordinator" where
  "timer_fires bots message_id rnd get_recent_conversations s =
     (if message_id \<notin> set (armed_timers s) then s
      else
        (let reports = (case pending_interest_reports s message_id of
                          None \<Rightarrow> []
                        | Some b \<Rightarrow> bk_reports b);
             s1 = s\<lparr>armed_timers := remove1 message_id (armed_timers s),
                    log_invoked := log_invoked s @ [message_id]\<rparr>
         in case process_message_interest_after_delay rnd bots get_recent_conversations reports of
              Done tasks True \<Rightarrow>
                s1\<lparr>pending_interest_reports := (pending_interest_reports s1)(message_id := None),
                   log_cleared := log_cleared s1 @ [message_id]\<rparr>
            | _ \<Rightarrow> s1))"

datatype event = Report interest_report | TimerFires int rng "nat \<Rightarrow> json list"

fun step :: "bots \<Rightarrow> event \<Rightarrow> coordinator \<Rightarrow> coordinator" where
  "step bots (Report report) s = receive_report report s"
| "step bots (TimerFires message_id rnd get_recent_conversations) s =
     timer_fires bots message_id rnd get_recent_conversations s"

fun run :: "bots \<Rightarrow> event list \<Rightarrow> coordinator \<Rightarrow> coordinator" where
  "run bots [] s = s"
| "run bots (e # es) s = run bots es (step bots e s)"


section \<open>Word-boundary matching, as the specification words it\<close>

text \<open>
  The specification describes name-mention resolution as a scan for each agent's canonical
  name and nicknames "using word-boundary matching". The definitions of this section follow
  these words, to be compared with \<open>is_bot_name_mentioned\<close>: a name matches where it occurs
  in the lower-cased text with no word character (letter, digit, underscore) directly
  before it and none directly after it.
\<close>

definition is_word_char :: "char \<Rightarrow> bool" where
  "is_word_char c \<longleftrightarrow>
     c \<in> set ''abcdefghijklmnopqrstuvwxyzABCDEFGHIJKLMNOPQRSTUVWXYZ0123456789_''"

fun spec_word_at :: "bool \<Rightarrow> string \<Rightarrow> string \<Rightarrow> bool" where
  "spec_word_at before_ok w [] = (before_ok \<and> w = [])"
| "spec_word_at before_ok w (c # cs) =
     (if before_ok \<and> prefix w (c # cs) \<and>
         (case drop (length w) (c # cs) of [] \<Rightarrow> True | d # _ \<Rightarrow> \<not> is_word_char d)
      then True
      else spec_word_at (\<not> is_word_char c) w cs)"

definition spec_word_boundary_in :: "string \<Rightarrow> string \<Rightarrow> bool" where
  "spec_word_boundary_in w s = spec_word_at True w s"

text \<open>The nicknames that \<open>is_bot_name_mentioned\<close> knows, by bot id.\<close>

definition nicknames :: "string \<Rightarrow> string list" where
  "nicknames bot_id =
     (if bot_id = ''bot1'' then [''max'', ''btc'']
      else if bot_id = ''bot2'' then [''evan'', ''$evan'']
      else if bot_id = ''bot3'' then [''goldy'', ''goldilocks'']
      else [])"

definition spec_name_mentioned :: "string \<Rightarrow> string \<Rightarrow> bots \<Rightarrow> bool" where
  "spec_name_mentioned bot_id message_text bots =
     (case map_of bots bot_id of
        None \<Rightarrow> False
      | Some name \<Rightarrow>
          any_of (\<lambda>n. spec_word_boundary_in n (lower message_text))
            (lower name # nicknames bot_id))"

definition spec_mentioned_bots :: "string \<Rightarrow> bots \<Rightarrow> string list" where
  "spec_mentioned_bots message_text bots =
     filter (\<lambda>bot_id. spec_name_mentioned bot_id message_text bots) (map fst bots)"

section \<open>Example inputs\<close>

text \<open>The three agents of \<^verbatim>\<open>main()\<close>, with the names of their personalities.\<close>

definition bots3 :: bots where
  "bots3 = [(''bot1'', ''BTC Max''), (''bot2'', ''$EVAN the hobo''), (''bot3'', ''Goldilocks'')]"

text \<open>A store without conversations, and a report for message 7 with no reply target.\<close>

definition no_history :: "nat \<Rightarrow> json list" where
  "no_history limit = []"

definition mk_report :: "string \<Rightarrow> string \<Rightarrow> bool \<Rightarrow> bool \<Rightarrow> int option \<Rightarrow> interest_report" where
  "mk_report reporter text interested personal replied =
     \<lparr>rep_message_id = 7, rep_bot_id = reporter, rep_is_interested = interested,
      rep_is_personal_question = personal, rep_user_id = 1, rep_username = ''alice'',
      rep_message_text = text, rep_replied_to_message_id = replied\<rparr>"

definition fixed_draws :: "rat \<Rightarrow> rat \<Rightarrow> rng" where
  "fixed_draws a b = \<lparr>assignment_choice = a, short_message_draw = b, choice_index = 0\<rparr>"

text \<open>A store whose log holds one message, number 42, sent by bot1.\<close>

definition history42 :: "nat \<Rightarrow> json list" where
  "history42 limit =
     last_n limit
       [JObj [(''message_id'', JInt 42), (''sender_type'', JStr ''bot''),
              (''sender_id'', JStr ''bot1''), (''message_text'', JStr ''gm'')]]"


section \<open>Topic ledger: \<^verbatim>\<open>add_recently_used_topic\<close> and \<^verbatim>\<open>is_topic_recently_used\<close>\<close>

text \<open>\<^verbatim>\<open>d.get(k, default)\<close>\<close>

definition py_get_default :: "pydict \<Rightarrow> string \<Rightarrow> json \<Rightarrow> json" where
  "py_get_default d k dflt = (case map_of d k of None \<Rightarrow> dflt | Some v \<Rightarrow> v)"

text \<open>
  \<^verbatim>\<open>[topic for topic in topics if topic.get("time", 0) > cutoff_time]\<close>: \<open>None\<close> is the
  AttributeError of \<^verbatim>\<open>.get\<close> on an entry that is no dictionary, or the TypeError of comparing
  a value that is no number with the cutoff.
\<close>

fun filter_recent :: "rat \<Rightarrow> json list \<Rightarrow> json list option" where
  "filter_recent cutoff_time [] = Some []"
| "filter_recent cutoff_time (JObj topic # rest) =
     (case num_of (py_get_default topic ''time'' (JInt 0)) of
        None \<Rightarrow> None
      | Some t \<Rightarrow>
          (case filter_recent cutoff_time rest of
             None \<Rightarrow> None
           | Some recent \<Rightarrow> Some (if t > cutoff_time then JObj topic # recent else recent)))"
| "filter_recent cutoff_time (_ # rest) = None"

text \<open>
  The loop of \<^verbatim>\<open>get_recently_used_topics\<close> over \<^verbatim>\<open>data["recent_topics"].items()\<close>: a bot is
  kept with its recent topics when it has any.
\<close>

fun recent_by_bot :: "rat \<Rightarrow> pydict \<Rightarrow> (string \<times> json list) list option" where
  "recent_by_bot cutoff_time [] = Some []"
| "recent_by_bot cutoff_time ((bot_id, topics) # rest) =
     (case py_iter topics of
        None \<Rightarrow> None
      | Some ts \<Rightarrow>
          (case filter_recent cutoff_time ts of
             None \<Rightarrow> None
           | Some recent_topics \<Rightarrow>
               (case recent_by_bot cutoff_time rest of
                  None \<Rightarrow> None
                | Some result \<Rightarrow>
                    Some (if recent_topics \<noteq> [] then (bot_id, recent_topics) # result
                          else result))))"

text \<open>
  \<^verbatim>\<open>get_recently_used_topics(minutes)\<close> on the document \<open>data\<close> that \<^verbatim>\<open>load_data\<close> returned, at
  time \<open>now\<close>. Every exception ends in the method's \<^verbatim>\<open>except\<close>, which returns the empty
  dictionary; a document that is no dictionary, or without the key, gives the empty
  dictionary as well.
\<close>

definition get_recently_used_topics :: "rat \<Rightarrow> int \<Rightarrow> json \<Rightarrow> (string \<times> json list) list" where
  "get_recently_used_topics now minutes data =
     (case data of
        JObj d \<Rightarrow>
          (case map_of d ''recent_topics'' of
             Some (JObj recent_topics) \<Rightarrow>
               (let current_time = now;
                    cutoff_time = current_time - of_int (minutes * 60)
                in case recent_by_bot cutoff_time recent_topics of
                     None \<Rightarrow> []
                   | Some result \<Rightarrow> result)
           | _ \<Rightarrow> [])
      | _ \<Rightarrow> [])"

text \<open>
  The test of \<^verbatim>\<open>is_topic_recently_used\<close> on one stored query and the candidate, both in
  lower case: equal, or the candidate is longer than 10 characters and one contains the
  other.
\<close>

definition topic_match :: "string \<Rightarrow> string \<Rightarrow> bool" where
  "topic_match used_query query_lower \<longleftrightarrow>
     used_query = query_lower \<or>
     (length query_lower > 10 \<and> (str_in used_query query_lower \<or> str_in query_lower used_query))"

text \<open>
  The inner loop over the topics of one bot. \<open>None\<close> is the AttributeError of
  \<^verbatim>\<open>.lower()\<close> on a stored query that is no string; \<open>Some None\<close> is the end of the loop;
  \<open>Some (Some info)\<close> is the \<^verbatim>\<open>return True, {...}\<close> with the bot id, the stored query in lower
  case and its time.
\<close>

type_synonym topic_info = "string \<times> string \<times> json"

fun scan_topics :: "string \<Rightarrow> string \<Rightarrow> json list \<Rightarrow> topic_info option option" where
  "scan_topics query_lower bot_id [] = Some None"
| "scan_topics query_lower bot_id (JObj topic # rest) =
     (case py_get_default topic ''query'' (JStr []) of
        JStr q \<Rightarrow>
          (let used_query = lower q
           in if topic_match used_query query_lower
              then Some (Some (bot_id, used_query, py_get_default topic ''time'' (JInt 0)))
              else scan_topics query_lower bot_id rest)
      | _ \<Rightarrow> None)"
| "scan_topics query_lower bot_id (_ # rest) = None"

fun scan_bots :: "string \<Rightarrow> (string \<times> json list) list \<Rightarrow> topic_info option option" where
  "scan_bots query_lower [] = Some None"
| "scan_bots query_lower ((bot_id, topics) # rest) =
     (case scan_topics query_lower bot_id topics of
        None \<Rightarrow> None
      | Some (Some info) \<Rightarrow> Some (Some info)
      | Some None \<Rightarrow> scan_bots query_lower rest)"

definition is_topic_recently_used :: "rat \<Rightarrow> string \<Rightarrow> int \<Rightarrow> json \<Rightarrow> bool \<times> topic_info option" where
  "is_topic_recently_used now topic_query minutes data =
     (let recently_used = get_recently_used_topics now minutes data;
          query_lower = lower topic_query
      in case scan_bots query_lower recently_used of
           Some (Some info) \<Rightarrow> (True, Some info)
         | _ \<Rightarrow> (False, None))"

text \<open>
  \<^verbatim>\<open>add_recently_used_topic(bot_id, topic_query, current_time)\<close> on the document that
  \<^verbatim>\<open>load_data\<close> returned: \<open>Some doc\<close> is the document handed to \<^verbatim>\<open>save_data\<close>, \<open>None\<close> an
  exception caught and logged by the method.
\<close>

definition add_recently_used_topic :: "string \<Rightarrow> string \<Rightarrow> rat \<Rightarrow> json \<Rightarrow> json option" where
  "add_recently_used_topic bot_id topic_query current_time data =
     (case data of
        JObj d \<Rightarrow>
          (let d1 = (if map_of d ''recent_topics'' = None
                     then dict_set ''recent_topics'' (JObj []) d else d)
           in case map_of d1 ''recent_topics'' of
                Some (JObj recent_topics) \<Rightarrow>
                  (let rt1 = (if map_of recent_topics bot_id = None
                              then dict_set bot_id (JList []) recent_topics else recent_topics)
                   in case map_of rt1 bot_id of
                        Some (JList topics) \<Rightarrow>
                          (let topics1 = topics @ [JObj [(''query'', JStr topic_query),
                                                         (''time'', JFloat current_time)]];
                               topics2 = (if length topics1 > 50 then last_n 50 topics1
                                          else topics1)
                           in Some (JObj (dict_set ''recent_topics''
                                            (JObj (dict_set bot_id (JList topics2) rt1)) d1)))
                      | _ \<Rightarrow> None)
              | _ \<Rightarrow> None)
      | _ \<Rightarrow> None)"

text \<open>The entry that \<^verbatim>\<open>add_recently_used_topic\<close> appends.\<close>

abbreviation (input) entry_json :: "string \<times> rat \<Rightarrow> json" where
  "entry_json \<equiv> (\<lambda>(q, t). JObj [(''query'', JStr q), (''time'', JFloat t)])"

text \<open>
  A ledger as \<^verbatim>\<open>add_recently_used_topic\<close> writes it: for every bot a list of entries with a
  query string and a time.
\<close>

definition ledger_json :: "(string \<times> (string \<times> rat) list) list \<Rightarrow> json" where
  "ledger_json ledger =
     JObj (map (\<lambda>(bot_id, entries).
                  (bot_id, JList (map entry_json entries))) ledger)"

text \<open>The entries of a ledger that are newer than a cutoff, for the bots that have any.\<close>

definition recent_rows :: "rat \<Rightarrow> (string \<times> (string \<times> rat) list) list \<Rightarrow> (string \<times> (string \<times> rat) list) list" where
  "recent_rows c ledger =
     filter (\<lambda>(b, es). es \<noteq> []) (map (\<lambda>(b, es). (b, filter (\<lambda>(q, t). t > c) es)) ledger)"


definition default_data :: json where
  "default_data =
     JObj [(''conversations'', JList []), (''user_data'', JObj []), (''web_content'', JList []),
           (''recent_bot_topics'', JList []), (''recent_topics'', JObj [])]"

section \<open>Topic matching, as the specification words it\<close>

text \<open>
  The specification normalizes a text by lower-casing and stripping punctuation, and matches
  on equality of the normalized texts or, for a normalized text longer than a minimum
  length, containment in either direction. The definitions below follow these words, with
  the ASCII punctuation characters and the code's minimum length of 10.
\<close>

definition is_punct :: "char \<Rightarrow> bool" where
  "is_punct c \<longleftrightarrow>
     c \<in> set (''!#$%&()*+,-./:;<=>?@[]^_{|}~'' @ [CHR 0x22, CHR 0x27, CHR 0x5C, CHR 0x60])"

definition spec_normalize :: "string \<Rightarrow> string" where
  "spec_normalize s = filter (\<lambda>c. \<not> is_punct c) (lower s)"

definition spec_topic_match :: "string \<Rightarrow> string \<Rightarrow> bool" where
  "spec_topic_match stored candidate \<longleftrightarrow>
     topic_match (spec_normalize stored) (spec_normalize candidate)"

section \<open>The store: files, cache and JSON codec\<close>

text \<open>
  A file has a content and a modification time; the file system is the list of its paths
  with their files, in the order in which a directory listing (\<^verbatim>\<open>glob\<close>) yields them.
  Directories, locks and permissions are not modelled: a read fails only for a missing
  file.
\<close>

type_synonym path = string

record stored_file =
  f_content :: string
  f_mtime :: rat

type_synonym filesystem = "(path \<times> stored_file) list"

definition content_at :: "path \<Rightarrow> filesystem \<Rightarrow> string option" where
  "content_at p fs = map_option f_content (map_of fs p)"

definition fs_write :: "path \<Rightarrow> string \<Rightarrow> rat \<Rightarrow> filesystem \<Rightarrow> filesystem" where
  "fs_write p s now fs = dict_set p \<lparr>f_content = s, f_mtime = now\<rparr> fs"

definition fs_remove :: "path \<Rightarrow> filesystem \<Rightarrow> filesystem" where
  "fs_remove p fs = filter (\<lambda>(q, f). q \<noteq> p) fs"

text \<open>\<^verbatim>\<open>shutil.copy2(src, dst)\<close> copies content and modification time; \<open>None\<close> when \<open>src\<close> is missing.\<close>

definition fs_copy2 :: "path \<Rightarrow> path \<Rightarrow> filesystem \<Rightarrow> filesystem option" where
  "fs_copy2 src dst fs =
     (case map_of fs src of None \<Rightarrow> None | Some f \<Rightarrow> Some (dict_set dst f fs))"

text \<open>\<^verbatim>\<open>os.rename(src, dst)\<close>: in one step \<open>dst\<close> becomes the file that \<open>src\<close> was.\<close>

definition fs_rename :: "path \<Rightarrow> path \<Rightarrow> filesystem \<Rightarrow> filesystem option" where
  "fs_rename src dst fs =
     (case map_of fs src of
        None \<Rightarrow> None
      | Some f \<Rightarrow> Some (dict_set dst f (fs_remove src fs)))"

text \<open>
  \<^verbatim>\<open>glob.glob(prefix + "*")\<close> for a prefix without wildcard characters: the paths that start
  with the prefix and go on without a directory separator.
\<close>

definition glob_star :: "string \<Rightarrow> filesystem \<Rightarrow> path list" where
  "glob_star pre fs =
     filter (\<lambda>p. prefix pre p \<and> CHR ''/'' \<notin> set (drop (length pre) p)) (map fst fs)"

definition mtime_of :: "filesystem \<Rightarrow> path \<Rightarrow> rat" where
  "mtime_of fs p = (case map_of fs p of None \<Rightarrow> 0 | Some f \<Rightarrow> f_mtime f)"

text \<open>\<^verbatim>\<open>max(paths, key=os.path.getmtime)\<close>: the first path with the greatest time.\<close>

fun newest_from :: "filesystem \<Rightarrow> path \<Rightarrow> path list \<Rightarrow> path" where
  "newest_from fs best [] = best"
| "newest_from fs best (p # ps) =
     newest_from fs (if mtime_of fs p > mtime_of fs best then p else best) ps"

text \<open>\<^verbatim>\<open>os.path.basename\<close>: what follows the last separator.\<close>

definition basename :: "path \<Rightarrow> string" where
  "basename p = rev (takeWhile (\<lambda>c. c \<noteq> CHR ''/'') (rev p))"

text \<open>
  \<^verbatim>\<open>json.loads\<close> and \<^verbatim>\<open>json.dump\<close> belong to Python's library and are parameters of the
  model: \<open>loads\<close> answers \<open>None\<close> for a JSONDecodeError.
\<close>

record codec =
  loads :: "string \<Rightarrow> json option"
  dumps :: "json \<Rightarrow> string"

text \<open>
  The part of a \<^verbatim>\<open>SharedMemory\<close> object that reading and writing touch: the files,
  \<^verbatim>\<open>_cached_data\<close> and \<^verbatim>\<open>_cache_timestamp\<close>. The cache holds a value; that the shallow
  copies handed out share their nested lists with it is not modelled.
\<close>

record store =
  files :: filesystem
  cached_data :: "json option"
  cache_timestamp :: rat

text \<open>The state after \<^verbatim>\<open>__init__\<close>, which resets the cache after \<^verbatim>\<open>ensure_file_exists\<close>.\<close>

definition new_store :: "filesystem \<Rightarrow> store" where
  "new_store fs = \<lparr>files = fs, cached_data = None, cache_timestamp = 0\<rparr>"

datatype py_error = TypeError | AttributeError

section \<open>Reading: \<^verbatim>\<open>load_data\<close> and its recovery steps\<close>

text \<open>
  \<^verbatim>\<open>key in data\<close> for a string key: a dictionary is asked for the key, a list for an equal
  element, a string for the substring; any other value raises TypeError (\<open>None\<close>).
\<close>

fun py_contains :: "string \<Rightarrow> json \<Rightarrow> bool option" where
  "py_contains k (JObj d) = Some (map_of d k \<noteq> None)"
| "py_contains k (JList xs) = Some (JStr k \<in> set xs)"
| "py_contains k (JStr s) = Some (str_in k s)"
| "py_contains k _ = None"

text \<open>
  \<^verbatim>\<open>if key not in data: data[key] = default\<close>; the assignment raises TypeError on anything
  but a dictionary.
\<close>

definition ensure_field :: "string \<Rightarrow> json \<Rightarrow> json \<Rightarrow> json option" where
  "ensure_field k dflt data =
     (case py_contains k data of
        None \<Rightarrow> None
      | Some True \<Rightarrow> Some data
      | Some False \<Rightarrow> (case data of JObj d \<Rightarrow> Some (JObj (dict_set k dflt d)) | _ \<Rightarrow> None))"

definition ensure_required_fields :: "json \<Rightarrow> json option" where
  "ensure_required_fields data =
     (case ensure_field ''recent_bot_topics'' (JList []) data of None \<Rightarrow> None | Some d1 \<Rightarrow>
     (case ensure_field ''conversations'' (JList []) d1 of None \<Rightarrow> None | Some d2 \<Rightarrow>
     (case ensure_field ''user_data'' (JObj []) d2 of None \<Rightarrow> None | Some d3 \<Rightarrow>
     (case ensure_field ''web_content'' (JList []) d3 of None \<Rightarrow> None | Some d4 \<Rightarrow>
      ensure_field ''recent_topics'' (JObj []) d4))))"

text \<open>\<^verbatim>\<open>x.copy()\<close>: dictionaries and lists have it, the other values raise AttributeError.\<close>

fun py_copy :: "json \<Rightarrow> json option" where
  "py_copy (JObj d) = Some (JObj d)"
| "py_copy (JList xs) = Some (JList xs)"
| "py_copy _ = None"

text \<open>
  Opening, reading and parsing the primary file: \<open>None\<close> stands for the two exceptions that
  \<^verbatim>\<open>load_data\<close> catches, FileNotFoundError and JSONDecodeError (raised also for a file of
  whitespace only).
\<close>

definition read_document :: "codec \<Rightarrow> path \<Rightarrow> filesystem \<Rightarrow> json option" where
  "read_document c file_path fs =
     (case map_of fs file_path of
        None \<Rightarrow> None
      | Some f \<Rightarrow> if py_strip (f_content f) = [] then None else loads c (f_content f))"

definition try_restore_from_backup :: "path \<Rightarrow> filesystem \<Rightarrow> filesystem \<times> bool" where
  "try_restore_from_backup file_path fs =
     (let backup_files = glob_star (file_path @ ''.backup.'') fs
      in case backup_files of
           [] \<Rightarrow> (fs, False)
         | p # ps \<Rightarrow>
             (let newest_backup = newest_from fs p ps
              in case fs_copy2 newest_backup file_path fs of
                   Some fs1 \<Rightarrow> (fs1, True)
                 | None \<Rightarrow> (fs, False)))"

text \<open>
  \<^verbatim>\<open>re.sub(r',\s*}', '}', content)\<close> and \<^verbatim>\<open>re.sub(r',\s*]', ']', content)\<close>: every comma that is
  followed, after any whitespace, by the closing character is removed together with that
  whitespace.
\<close>

function strip_trailing_commas :: "char \<Rightarrow> string \<Rightarrow> string" where
  "strip_trailing_commas closing [] = []"
| "strip_trailing_commas closing (c # cs) =
     (if c = CHR '','' then
        (case dropWhile is_space cs of
           [] \<Rightarrow> c # strip_trailing_commas closing cs
         | d # rest \<Rightarrow>
             if d = closing then closing # strip_trailing_commas closing rest
             else c # strip_trailing_commas closing cs)
      else c # strip_trailing_commas closing cs)"
  by pat_completeness auto
termination
proof (relation "measure (\<lambda>(closing, s). length s)")
  show "wf (measure (\<lambda>(closing, s). length s))"
    by simp
next
  fix closing c :: char and cs :: string
  show "((closing, cs), (closing, c # cs)) \<in> measure (\<lambda>(closing, s). length s)"
    by simp
next
  fix closing c d :: char and cs rest :: string
  assume "dropWhile is_space cs = d # rest"
  then have "length (d # rest) \<le> length cs"
    using length_dropWhile_le [of is_space cs] by simp
  then show "((closing, rest), (closing, c # cs)) \<in> measure (\<lambda>(closing, s). length s)"
    by simp
next
  fix closing c d :: char and cs rest :: string
  show "((closing, cs), (closing, c # cs)) \<in> measure (\<lambda>(closing, s). length s)"
    by simp
next
  fix closing c :: char and cs :: string
  show "((closing, cs), (closing, c # cs)) \<in> measure (\<lambda>(closing, s). length s)"
    by simp
qed

text \<open>The textual repair: trailing commas, then the missing closing braces and brackets.\<close>

definition repair_text :: "string \<Rightarrow> string" where
  "repair_text content =
     (let content1 = strip_trailing_commas CHR '']'' (strip_trailing_commas CHR ''}'' content);
          open_braces = int (count_list content1 CHR ''{'') - int (count_list content1 CHR ''}'');
          open_brackets = int (count_list content1 CHR ''['') - int (count_list content1 CHR '']'');
          content2 = (if open_braces > 0 then content1 @ replicate (nat open_braces) CHR ''}''
                      else content1)
      in if open_brackets > 0 then content2 @ replicate (nat open_brackets) CHR '']''
         else content2)"

definition try_repair_json_file ::
  "codec \<Rightarrow> path \<Rightarrow> string \<Rightarrow> rat \<Rightarrow> filesystem \<Rightarrow> filesystem \<times> bool" where
  "try_repair_json_file c file_path ts now fs =
     (case map_of fs file_path of
        None \<Rightarrow> (fs, False)
      | Some f \<Rightarrow>
          (let content = f_content f;
               fs1 = fs_write (file_path @ ''.beforerepair.'' @ ts) content now fs
           in if py_strip content = []
              then (fs_write file_path (dumps c default_data) now fs1, True)
              else (case loads c (repair_text content) of
                      Some repaired_data \<Rightarrow>
                        (fs_write file_path (dumps c repaired_data) now fs1, True)
                    | None \<Rightarrow> (fs1, False))))"

definition create_new_memory_file :: "codec \<Rightarrow> path \<Rightarrow> string \<Rightarrow> rat \<Rightarrow> filesystem \<Rightarrow> filesystem" where
  "create_new_memory_file c file_path ts now fs =
     (let fs1 = (case fs_copy2 file_path (file_path @ ''.corrupted.'' @ ts) fs of
                   Some copied \<Rightarrow> copied
                 | None \<Rightarrow> fs)
      in fs_write file_path (dumps c default_data) now fs1)"

definition max_retries :: nat where
  "max_retries = 5"

definition cache_valid_seconds :: rat where
  "cache_valid_seconds = 5"

text \<open>
  The loop \<^verbatim>\<open>for attempt in range(self.max_retries)\<close> of \<^verbatim>\<open>load_data\<close>, over the attempts that
  are left; the equation for the empty list is the code after the loop. The result is the
  returned document, or the exception that leaves \<^verbatim>\<open>load_data\<close>: the TypeError of filling
  a field into a document that is no dictionary, or the AttributeError of \<^verbatim>\<open>.copy()\<close>.
\<close>

fun load_attempts ::
  "codec \<Rightarrow> path \<Rightarrow> string \<Rightarrow> rat \<Rightarrow> nat list \<Rightarrow> store \<Rightarrow> (py_error + json) \<times> store" where
  "load_attempts c file_path ts now [] s =
     (Inr default_data,
      s\<lparr>files := fs_write file_path (dumps c default_data) now (files s),
        cached_data := Some default_data, cache_timestamp := now\<rparr>)"
| "load_attempts c file_path ts now (attempt # rest) s =
     (case read_document c file_path (files s) of
        Some parsed \<Rightarrow>
          (case ensure_required_fields parsed of
             None \<Rightarrow> (Inl TypeError, s)
           | Some data \<Rightarrow>
               (let s1 = s\<lparr>cached_data := Some data, cache_timestamp := now\<rparr>
                in case py_copy data of
                     None \<Rightarrow> (Inl AttributeError, s1)
                   | Some copied \<Rightarrow> (Inr copied, s1)))
      | None \<Rightarrow>
          if attempt = 0
            then load_attempts c file_path ts now rest
                   (s\<lparr>files := fst (try_restore_from_backup file_path (files s))\<rparr>)
          else if attempt = 1
            then load_attempts c file_path ts now rest
                   (s\<lparr>files := fst (try_repair_json_file c file_path ts now (files s))\<rparr>)
          else if attempt = max_retries - 1
            then (Inr default_data,
                  s\<lparr>files := create_new_memory_file c file_path ts now (files s),
                    cached_data := Some default_data, cache_timestamp := now\<rparr>)
          else load_attempts c file_path ts now rest s)"

definition load_data :: "codec \<Rightarrow> path \<Rightarrow> string \<Rightarrow> rat \<Rightarrow> store \<Rightarrow> (py_error + json) \<times> store" where
  "load_data c file_path ts now s =
     (case (if now - cache_timestamp s < cache_valid_seconds then cached_data s else None) of
        Some cached \<Rightarrow>
          (case py_copy cached of
             Some copied \<Rightarrow> (Inr copied, s)
           | None \<Rightarrow> (Inl AttributeError, s))
      | None \<Rightarrow> load_attempts c file_path ts now [0 ..< max_retries] s)"

text \<open>The five top-level fields that \<^verbatim>\<open>load_data\<close> fills in.\<close>

definition required_fields :: "string list" where
  "required_fields =
     [''conversations'', ''user_data'', ''web_content'', ''recent_bot_topics'', ''recent_topics'']"

definition has_required_fields :: "pydict \<Rightarrow> bool" where
  "has_required_fields d = list_all (\<lambda>k. map_of d k \<noteq> None) required_fields"

text \<open>The cache, if it holds a dictionary, holds one with the five fields.\<close>

definition cache_complete :: "store \<Rightarrow> bool" where
  "cache_complete s =
     (case cached_data s of Some (JObj d) \<Rightarrow> has_required_fields d | _ \<Rightarrow> True)"

section \<open>Writing: \<^verbatim>\<open>save_data\<close>\<close>

text \<open>
  What can go wrong in one attempt of the write: opening the temporary file, writing it
  (the exception comes after \<open>n\<close> characters have reached the file), or renaming it.
\<close>

datatype write_outcome = WriteOk | OpenFails | DumpFails nat | RenameFails

definition cleanup_old_backups :: "path \<Rightarrow> filesystem \<Rightarrow> filesystem" where
  "cleanup_old_backups file_path fs =
     (let backup_files = glob_star (''backups/'' @ basename file_path @ ''.backup.'') fs
      in if length backup_files \<le> 10 then fs
         else (let sorted = sort_key (\<lambda>p. - mtime_of fs p) backup_files;
                   files_to_delete = drop 10 sorted
               in fold fs_remove files_to_delete fs))"

text \<open>
  The backup of the first attempt, made when the primary file exists and is not empty;
  \<open>backup_ok\<close> says whether \<^verbatim>\<open>shutil.copy2\<close> succeeds (the exception is logged and the write
  goes on).
\<close>

definition backup_before_save :: "path \<Rightarrow> string \<Rightarrow> bool \<Rightarrow> filesystem \<Rightarrow> filesystem" where
  "backup_before_save file_path ts backup_ok fs =
     (case map_of fs file_path of
        None \<Rightarrow> fs
      | Some f \<Rightarrow>
          if length (f_content f) > 0 \<and> backup_ok
          then (case fs_copy2 file_path
                       (''backups/'' @ basename file_path @ ''.backup.'' @ ts) fs of
                  Some fs1 \<Rightarrow> cleanup_old_backups file_path fs1
                | None \<Rightarrow> fs)
          else fs)"

text \<open>
  One attempt at the two-step write. The result lists the states of the file system after
  each operation (truncating open, write and sync, rename) and tells whether the rename
  was done.
\<close>

definition write_attempt ::
  "codec \<Rightarrow> path \<Rightarrow> json \<Rightarrow> rat \<Rightarrow> write_outcome \<Rightarrow> filesystem \<Rightarrow> filesystem list \<times> bool" where
  "write_attempt c file_path data now outcome fs =
     (let temp_file = file_path @ ''.tmp'';
          opened = fs_write temp_file [] now fs;
          written = fs_write temp_file (dumps c data) now fs
      in case outcome of
           OpenFails \<Rightarrow> ([], False)
         | DumpFails n \<Rightarrow> ([opened, fs_write temp_file (take n (dumps c data)) now fs], False)
         | RenameFails \<Rightarrow> ([opened, written], False)
         | WriteOk \<Rightarrow>
             (case fs_rename temp_file file_path written of
                Some renamed \<Rightarrow> ([opened, written, renamed], True)
              | None \<Rightarrow> ([opened, written], False)))"

text \<open>
  The loop of \<^verbatim>\<open>save_data\<close> over the attempts that are left. The result is the trace of
  file-system states the call goes through, and the store it leaves. After a completed
  rename the cache is set to \<^verbatim>\<open>data.copy()\<close>; should that raise, the exception counts as a
  failed attempt like any other.
\<close>

fun save_attempts ::
  "codec \<Rightarrow> path \<Rightarrow> json \<Rightarrow> string \<Rightarrow> rat \<Rightarrow> bool \<Rightarrow> (nat \<Rightarrow> write_outcome) \<Rightarrow> nat list \<Rightarrow> store \<Rightarrow>
   filesystem list \<times> store" where
  "save_attempts c file_path data ts now backup_ok io [] s = ([], s)"
| "save_attempts c file_path data ts now backup_ok io (attempt # rest) s =
     (let fs1 = (if attempt = 0 then backup_before_save file_path ts backup_ok (files s)
                 else files s);
          (snaps, renamed) = write_attempt c file_path data now (io attempt) fs1;
          fs2 = last (fs1 # snaps)
      in case (if renamed then py_copy data else None) of
           Some copied \<Rightarrow>
             (fs1 # snaps, s\<lparr>files := fs2, cached_data := Some copied, cache_timestamp := now\<rparr>)
         | None \<Rightarrow>
             (let (trace, s') = save_attempts c file_path data ts now backup_ok io rest
                                  (s\<lparr>files := fs2\<rparr>)
              in (fs1 # snaps @ trace, s')))"

definition save_data ::
  "codec \<Rightarrow> path \<Rightarrow> json \<Rightarrow> string \<Rightarrow> rat \<Rightarrow> bool \<Rightarrow> (nat \<Rightarrow> write_outcome) \<Rightarrow> store \<Rightarrow>
   filesystem list \<times> store" where
  "save_data c file_path data ts now backup_ok io s =
     save_attempts c file_path data ts now backup_ok io [0 ..< max_retries] s"

section \<open>Example store\<close>

text \<open>
  Three complete documents with zero, one and two conversations, and one document that
  has the field \<^verbatim>\<open>conversations\<close> only.
\<close>

definition doc1 :: json where
  "doc1 =
     JObj [(''conversations'',
            JList [JObj [(''message_id'', JInt 1), (''sender_type'', JStr ''user'')]]),
           (''user_data'', JObj []), (''web_content'', JList []),
           (''recent_bot_topics'', JList []), (''recent_topics'', JObj [])]"

definition doc2 :: json where
  "doc2 =
     JObj [(''conversations'',
            JList [JObj [(''message_id'', JInt 1), (''sender_type'', JStr ''user'')],
                   JObj [(''message_id'', JInt 2), (''sender_type'', JStr ''bot'')]]),
           (''user_data'', JObj []), (''web_content'', JList []),
           (''recent_bot_topics'', JList []), (''recent_topics'', JObj [])]"

definition partial_doc :: json where
  "partial_doc = JObj [(''conversations'', JList [])]"

text \<open>
  A codec for these four documents: each is written as one character, and every other
  text is a decoding error.
\<close>

definition toy_dumps :: "json \<Rightarrow> string" where
  "toy_dumps j =
     (if j = default_data then ''D''
      else if j = doc1 then ''1''
      else if j = doc2 then ''2''
      else if j = partial_doc then ''P''
      else ''?'')"

definition toy_loads :: "string \<Rightarrow> json option" where
  "toy_loads s =
     (if s = ''D'' then Some default_data
      else if s = ''1'' then Some doc1
      else if s = ''2'' then Some doc2
      else if s = ''P'' then Some partial_doc
      else None)"

definition toy_codec :: codec where
  "toy_codec = \<lparr>loads = toy_loads, dumps = toy_dumps\<rparr>"

text \<open>Scripts of write outcomes, by attempt.\<close>

definition always_ok :: "nat \<Rightarrow> write_outcome" where
  "always_ok attempt = WriteOk"



text \<open>
  A store with the default file path whose primary file holds \<open>doc1\<close>; the same store after
  \<^verbatim>\<open>save_data(doc2)\<close>; and that store after the primary file was overwritten with text that
  is no JSON.
\<close>

definition store1 :: store where
  "store1 = new_store [(''shared_memory.json'', \<lparr>f_content = ''1'', f_mtime = 50\<rparr>)]"

definition store2 :: store where
  "store2 = snd (save_data toy_codec ''shared_memory.json'' doc2 ''20250101000000'' 100 True
                   always_ok store1)"

definition store2_corrupted :: store where
  "store2_corrupted =
     store2\<lparr>files := fs_write ''shared_memory.json'' ''{bad'' 200 (files store2)\<rparr>"

section \<open>Properties of the conversation log\<close>

lemma dup_scan_all_dicts:
  "all_dicts cs \<Longrightarrow>
   dup_scan (py_get m ''message_id'') (py_get m ''sender_type'') cs = Some (key_present cs m)"
proof (induction cs)
  case Nil
  then show ?case by (simp add: key_present_def)
next
  case (Cons c cs)
  from Cons.prems obtain e where c: "c = JObj e"
    by (cases c) (simp_all add: all_dicts_def)
  from Cons.prems have "all_dicts cs"
    by (simp add: all_dicts_def)
  with Cons.IH have ih:
    "dup_scan (py_get m ''message_id'') (py_get m ''sender_type'') cs = Some (key_present cs m)"
    by simp
  show ?case
    using ih by (auto simp: c key_present_def same_key_def)
qed

lemma last_n_length: "length (last_n n xs) \<le> n"
  by (simp add: last_n_def)

lemma last_n_suffix: "suffix (last_n n xs) xs"
  by (simp add: last_n_def suffix_drop)

lemma last_n_snoc: "0 < n \<Longrightarrow> last (last_n n (xs @ [x])) = x"
  by (simp add: last_n_def)

lemma last_n_all: "length xs \<le> n \<Longrightarrow> last_n n xs = xs"
  by (simp add: last_n_def)

text \<open>
  Claim C8. For a record that carries both a \<^verbatim>\<open>message_id\<close> and a \<^verbatim>\<open>sender_type\<close>, and a
  log whose entries are dictionaries: \<^verbatim>\<open>add_conversation\<close> returns without writing when the log
  already holds a record with the same (message_id, sender_type) key; otherwise the document
  it hands to \<^verbatim>\<open>save_data\<close> has the (timestamped) record appended at the end and the log cut
  to its last 1000 entries. The new log never has more than 1000 entries, ends with the new
  record, and is a suffix of the old log followed by the record: the oldest entries go first
  and the rest keep their order.
\<close>

theorem add_conversation_dedup_and_cap:
  assumes "map_of d ''conversations'' = Some (JList cs)"
    and "all_dicts cs"
    and "py_get m ''message_id'' \<noteq> JNull"
    and "py_get m ''sender_type'' \<noteq> JNull"
  shows "add_conversation_data now m (JObj d) =
           (if key_present cs m then Rejected
            else Saved (JObj (dict_set ''conversations''
                   (JList (last_n 1000 (cs @ [JObj (stamp now m)]))) d))) \<and>
         length (last_n 1000 (cs @ [JObj (stamp now m)])) \<le> 1000 \<and>
         last (last_n 1000 (cs @ [JObj (stamp now m)])) = JObj (stamp now m) \<and>
         suffix (last_n 1000 (cs @ [JObj (stamp now m)])) (cs @ [JObj (stamp now m)])"
proof -
  have scan: "dup_scan (py_get m ''message_id'') (py_get m ''sender_type'') cs
                = Some (key_present cs m)"
    using assms(2) by (rule dup_scan_all_dicts)
  have "add_conversation_data now m (JObj d) =
          (if key_present cs m then Rejected
           else Saved (JObj (dict_set ''conversations''
                  (JList (last_n 1000 (cs @ [JObj (stamp now m)]))) d)))"
    using assms(1,3,4) scan
    by (auto simp: add_conversation_data_def Let_def last_n_all)
  moreover have "length (last_n 1000 (cs @ [JObj (stamp now m)])) \<le> 1000"
    by (rule last_n_length)
  moreover have "last (last_n 1000 (cs @ [JObj (stamp now m)])) = JObj (stamp now m)"
    by (rule last_n_snoc) simp
  moreover have "suffix (last_n 1000 (cs @ [JObj (stamp now m)])) (cs @ [JObj (stamp now m)])"
    by (rule last_n_suffix)
  ultimately show ?thesis
    by blast
qed

theorem add_conversation_dedup_and_cap_witness:
  "add_conversation_data 7
     [(''message_id'', JInt 2), (''sender_type'', JStr ''user'')]
     (JObj [(''conversations'',
             JList [JObj [(''message_id'', JInt 1), (''sender_type'', JStr ''user'')]])])
   = Saved (JObj [(''conversations'',
             JList [JObj [(''message_id'', JInt 1), (''sender_type'', JStr ''user'')],
                    JObj [(''message_id'', JInt 2), (''sender_type'', JStr ''user''),
                          (''timestamp'', JFloat 7)]])]) \<and>
   add_conversation_data 7
     [(''message_id'', JInt 1), (''sender_type'', JStr ''user'')]
     (JObj [(''conversations'',
             JList [JObj [(''message_id'', JInt 1), (''sender_type'', JStr ''user'')]])])
   = Rejected"
  using
    add_conversation_dedup_and_cap [of
      "[(''conversations'',
         JList [JObj [(''message_id'', JInt 1), (''sender_type'', JStr ''user'')]])]"
      "[JObj [(''message_id'', JInt 1), (''sender_type'', JStr ''user'')]]"
      "[(''message_id'', JInt 2), (''sender_type'', JStr ''user'')]" 7]
    add_conversation_dedup_and_cap [of
      "[(''conversations'',
         JList [JObj [(''message_id'', JInt 1), (''sender_type'', JStr ''user'')]])]"
      "[JObj [(''message_id'', JInt 1), (''sender_type'', JStr ''user'')]]"
      "[(''message_id'', JInt 1), (''sender_type'', JStr ''user'')]" 7]
  by (simp add: all_dicts_def py_get_def key_present_def same_key_def py_eq_def
        stamp_def last_n_def)

section \<open>Properties of the routing pipeline\<close>

text \<open>
  Claim C4 (spam veto precedence). Whenever the spam filter accepts the message text of a
  bundle (a spam pattern matches, or \<^verbatim>\<open>evan\<close> occurs beside a suspicious word), the run creates
  no response task, deletes the entry and returns: whatever the reports say about interest
  or personal questions, whatever the text says about \<^verbatim>\<open>$EVAN\<close>, whatever the store holds.
\<close>

theorem spam_veto_precedence:
  assumes "is_spam (rep_message_text first_report)"
  shows "process_message_interest_after_delay rnd bots get_recent_conversations
           ((first_bot_id, first_report) # reports) = Done [] True"
  using assms by (simp add: process_message_interest_after_delay_def)

theorem spam_veto_precedence_witness:
  "process_message_interest_after_delay (fixed_draws 0 0) bots3 no_history
     [(''bot2'', mk_report ''bot2'' ''FORWARDED FROM $EVAN'' True True None),
      (''bot1'', mk_report ''bot1'' ''FORWARDED FROM $EVAN'' True False None)] = Done [] True"
proof -
  have spam: "is_spam ''FORWARDED FROM $EVAN''"
    by code_simp
  show ?thesis
    using spam
      spam_veto_precedence [of "mk_report ''bot2'' ''FORWARDED FROM $EVAN'' True True None"
        "fixed_draws 0 0" bots3 no_history "''bot2''"
        "[(''bot1'', mk_report ''bot1'' ''FORWARDED FROM $EVAN'' True False None)]"]
    by (simp add: mk_report_def)
qed

text \<open>
  Claim C2 (interest-score resolution). The interest stage is the second of two branches
  \<^verbatim>\<open>elif not responding_bots:\<close> in a row, so it never runs. For the message \<^verbatim>\<open>gm\<close>, not spam, no
  personal question, no \<^verbatim>\<open>$EVAN\<close>, no reply, no name, and bot1 reporting interest: the run
  selects nobody when the random draw of the short-message fallback is at least 0.3, and
  bot2 with reason \<^verbatim>\<open>random_short_message_fallback\<close> when it is below; bot1 is never selected.
\<close>

theorem interest_report_not_routed:
  "process_message_interest_after_delay (fixed_draws (1 / 2) (1 / 2)) bots3 no_history
     [(''bot1'', mk_report ''bot1'' ''gm'' True False None)] = Done [] False \<and>
   process_message_interest_after_delay (fixed_draws (1 / 2) (1 / 10)) bots3 no_history
     [(''bot1'', mk_report ''bot1'' ''gm'' True False None)]
     = Done [(''bot2'', ''random_short_message_fallback'')] False \<and>
   interest_based_routing [(''bot1'', mk_report ''bot1'' ''gm'' True False None)]
     = ([''bot1''], Some ''interest_priority_bot1'')"
  by code_simp

lemma has_bot_iff: "has_bot b bots \<longleftrightarrow> b \<in> set (map fst bots)"
  by (simp add: has_bot_def map_of_eq_None_iff)

lemma collect_mentioned_filter:
  "distinct ks \<Longrightarrow> set acc \<inter> set ks = {} \<Longrightarrow>
   collect_mentioned t bots acc ks = acc @ filter (\<lambda>b. is_bot_name_mentioned b t bots) ks"
proof (induction ks arbitrary: acc)
  case Nil
  then show ?case by simp
next
  case (Cons k ks)
  from Cons.prems have k: "k \<notin> set acc" "k \<notin> set ks" "distinct ks" "set acc \<inter> set ks = {}"
    by auto
  show ?case
  proof (cases "is_bot_name_mentioned k t bots")
    case True
    from k have "set (acc @ [k]) \<inter> set ks = {}"
      by auto
    with Cons.IH [of "acc @ [k]"] k(3) True k(1) show ?thesis
      by simp
  next
    case False
    with Cons.IH [of acc] k(3,4) show ?thesis
      by simp
  qed
qed

lemma mentioned_known:
  "filter (\<lambda>b. has_bot b bots) (filter (\<lambda>b. is_bot_name_mentioned b t bots) (map fst bots))
     = filter (\<lambda>b. is_bot_name_mentioned b t bots) (map fst bots)"
  by (rule filter_True) (simp add: has_bot_iff)

lemma routing_chain_plain:
  assumes "\<not> str_in ''$evan'' (lower message_text)"
    and "truthy_id replied = None"
  shows "routing_chain message_text replied bots get_recent_conversations reports
           = Inr (bot_name_mention_routing message_text bots)"
  using assms by (simp add: routing_chain_def)

lemma trigger_mentioned:
  assumes "mentioned = filter (\<lambda>b. is_bot_name_mentioned b t bots) (map fst bots)"
    and "mentioned \<noteq> []"
  shows "trigger_selected bots (mentioned, Some reason)
           = Done (map (\<lambda>b. (b, reason)) mentioned) False"
  using assms mentioned_known [of bots t]
  by (simp add: trigger_selected_def)

text \<open>
  Claim C5 (name-mention resolution), as the code has it. For a message that is not spam,
  whose bundle has no personal-question flag, whose text does not contain \<^verbatim>\<open>$evan\<close> and which
  is no reply: let \<open>mentioned\<close> be the bots, in the order of the registry, that
  \<open>is_bot_name_mentioned\<close> accepts (the canonical name occurs anywhere in the lower-cased
  text, or a nickname is one of its whitespace-separated tokens). One such bot is selected
  with reason \<^verbatim>\<open>name_mention\<close>; several are all selected with reason
  \<^verbatim>\<open>multiple_name_mentions\<close>; with none the stage selects nobody and the run goes on to the
  general-request stage with an empty selection.
\<close>

theorem name_mention_resolution:
  assumes "rep_message_text first_report = message_text"
    and "rep_replied_to_message_id first_report = replied"
    and "\<not> is_spam message_text"
    and "filter (\<lambda>(bot_id, report). rep_is_personal_question report)
           ((first_bot_id, first_report) # reports) = []"
    and "\<not> str_in ''$evan'' (lower message_text)"
    and "truthy_id replied = None"
    and "distinct (map fst bots)"
    and "mentioned = filter (\<lambda>bot_id. is_bot_name_mentioned bot_id message_text bots) (map fst bots)"
  shows "process_message_interest_after_delay rnd bots get_recent_conversations
           ((first_bot_id, first_report) # reports) =
         (if length mentioned = 1 then Done [(hd mentioned, ''name_mention'')] False
          else if length mentioned > 1
            then Done (map (\<lambda>bot_id. (bot_id, ''multiple_name_mentions'')) mentioned) False
          else final_check message_text replied bots get_recent_conversations
                 (general_request_routing rnd message_text bots ([], None)))"
proof -
  have coll: "collect_mentioned message_text bots [] (map fst bots) = mentioned"
    using assms(7,8) collect_mentioned_filter [of "map fst bots" "[]" message_text bots]
    by simp
  have chain: "routing_chain message_text replied bots get_recent_conversations
                 ((first_bot_id, first_report) # reports)
               = Inr (bot_name_mention_routing message_text bots)"
    using assms(5,6) by (rule routing_chain_plain)
  have run: "process_message_interest_after_delay rnd bots get_recent_conversations
               ((first_bot_id, first_report) # reports)
             = final_check message_text replied bots get_recent_conversations
                 (general_request_routing rnd message_text bots
                    (bot_name_mention_routing message_text bots))"
    using assms(1-4) chain
    by (simp add: process_message_interest_after_delay_def Let_def)
  consider (one) "length mentioned = 1" | (many) "length mentioned > 1" | (none) "mentioned = []"
    by (cases mentioned) auto
  then show ?thesis
  proof cases
    case one
    then obtain b where b: "mentioned = [b]"
      by (cases mentioned) auto
    have sel: "bot_name_mention_routing message_text bots = ([b], Some ''name_mention'')"
      by (simp add: bot_name_mention_routing_def coll b)
    have ne: "mentioned \<noteq> []"
      using b by simp
    have "trigger_selected bots (mentioned, Some ''name_mention'')
            = Done (map (\<lambda>b. (b, ''name_mention'')) mentioned) False"
      using assms(8) ne by (rule trigger_mentioned)
    then have "trigger_selected bots ([b], Some ''name_mention'')
                 = Done [(b, ''name_mention'')] False"
      unfolding b by simp
    then show ?thesis
      using run sel b
      by (simp add: general_request_routing_def final_check_def)
  next
    case many
    then have ne: "mentioned \<noteq> []"
      by auto
    have sel: "bot_name_mention_routing message_text bots
                 = (mentioned, Some ''multiple_name_mentions'')"
      using many by (simp add: bot_name_mention_routing_def coll)
    have "trigger_selected bots (mentioned, Some ''multiple_name_mentions'')
            = Done (map (\<lambda>b. (b, ''multiple_name_mentions'')) mentioned) False"
      using assms(8) ne by (rule trigger_mentioned)
    then show ?thesis
      using run sel many ne
      by (simp add: general_request_routing_def final_check_def)
  next
    case none
    have sel: "bot_name_mention_routing message_text bots = ([], None)"
      by (simp add: bot_name_mention_routing_def coll none)
    show ?thesis
      using run sel none by simp
  qed
qed

theorem name_mention_resolution_witness:
  "process_message_interest_after_delay (fixed_draws (1 / 2) (1 / 2)) bots3 no_history
     [(''bot3'', mk_report ''bot3'' ''hi max'' True False None)]
     = Done [(''bot1'', ''name_mention'')] False \<and>
   process_message_interest_after_delay (fixed_draws (1 / 2) (1 / 2)) bots3 no_history
     [(''bot2'', mk_report ''bot2'' ''max goldy'' True False None)]
     = Done [(''bot1'', ''multiple_name_mentions''), (''bot3'', ''multiple_name_mentions'')] False"
proof -
  have spam: "\<not> is_spam ''hi max''" "\<not> is_spam ''max goldy''"
    by code_simp+
  have evan: "\<not> str_in ''$evan'' (lower ''hi max'')" "\<not> str_in ''$evan'' (lower ''max goldy'')"
    by code_simp+
  have d: "distinct (map fst bots3)"
    by code_simp
  have m1: "[''bot1''] = filter (\<lambda>bot_id. is_bot_name_mentioned bot_id ''hi max'' bots3) (map fst bots3)"
    by code_simp
  have m2: "[''bot1'', ''bot3''] = filter (\<lambda>bot_id. is_bot_name_mentioned bot_id ''max goldy'' bots3) (map fst bots3)"
    by code_simp
  have r1: "rep_message_text (mk_report ''bot3'' ''hi max'' True False None) = ''hi max''"
    and r2: "rep_replied_to_message_id (mk_report ''bot3'' ''hi max'' True False None) = None"
    and r3: "filter (\<lambda>(bot_id, report). rep_is_personal_question report)
           ((''bot3'', mk_report ''bot3'' ''hi max'' True False None) # []) = []"
    by (simp_all add: mk_report_def)
  have q1: "rep_message_text (mk_report ''bot2'' ''max goldy'' True False None) = ''max goldy''"
    and q2: "rep_replied_to_message_id (mk_report ''bot2'' ''max goldy'' True False None) = None"
    and q3: "filter (\<lambda>(bot_id, report). rep_is_personal_question report)
           ((''bot2'', mk_report ''bot2'' ''max goldy'' True False None) # []) = []"
    by (simp_all add: mk_report_def)
  have t: "truthy_id None = None" by simp
  show ?thesis
    using name_mention_resolution [OF r1 r2 spam(1) r3 evan(1) t d m1,
            of "fixed_draws (1 / 2) (1 / 2)" no_history]
          name_mention_resolution [OF q1 q2 spam(2) q3 evan(2) t d m2,
            of "fixed_draws (1 / 2) (1 / 2)" no_history]
    by simp
qed

text \<open>
  The claim as stated fails on word-boundary matching. In \<^verbatim>\<open>max?\<close> the nickname \<^verbatim>\<open>max\<close> stands
  between word boundaries, so exactly bot1 matches in the specification's sense; the code
  compares the nicknames with the whitespace-separated tokens, finds the token \<^verbatim>\<open>max?\<close> only,
  and the message goes to the general-request stage.
\<close>

theorem word_boundary_counterexample:
  "spec_mentioned_bots ''max?'' bots3 = [''bot1''] \<and>
   filter (\<lambda>bot_id. is_bot_name_mentioned bot_id ''max?'' bots3) (map fst bots3) = [] \<and>
   process_message_interest_after_delay (fixed_draws (1 / 2) (1 / 2)) bots3 no_history
     [(''bot3'', mk_report ''bot3'' ''max?'' False False None)]
     = Done [(''bot2'', ''general_request'')] False"
  by code_simp

lemma find_replied_bot_skip:
  "no_bot_author rid earlier \<Longrightarrow>
   find_replied_bot rid (earlier @ rest) = find_replied_bot rid rest"
proof (induction earlier)
  case Nil
  then show ?case by simp
next
  case (Cons c earlier)
  from Cons.prems obtain msg where c: "c = JObj msg" and nb: "\<not> bot_authored rid msg"
    and rest: "no_bot_author rid earlier"
    by (cases c) (simp_all add: no_bot_author_def)
  from nb Cons.IH [OF rest] show ?case
    by (auto simp: c bot_authored_def)
qed

lemma direct_reply_reason_prefix: "prefix ''direct_reply'' (direct_reply_reason b)"
  by (simp add: direct_reply_reason_def)

text \<open>
  Claim C6 (reply-chain resolution), as the code has it. The reply check is the second branch
  of the chain, after the spam veto, the personal-question override and the \<^verbatim>\<open>$EVAN\<close> branch.
  For a message that is not spam, whose bundle has no personal-question flag, that does not
  hold \<^verbatim>\<open>$evan\<close> while bot2 is registered, and that replies to a non-zero message id: if the
  first entry of the last 500 conversations that carries this id with sender type \<^verbatim>\<open>bot\<close> and
  a non-empty sender id names a registered bot \<open>b\<close>, then exactly \<open>b\<close> gets a response task,
  with one of the \<^verbatim>\<open>direct_reply\<close> reasons, and the entry is deleted. The reports' interest
  flags, the message text and the rest of the store play no part.
\<close>

theorem reply_chain_resolution:
  assumes "rep_message_text first_report = message_text"
    and "rep_replied_to_message_id first_report = Some rid"
    and "rid \<noteq> 0"
    and "\<not> is_spam message_text"
    and "filter (\<lambda>(bot_id, report). rep_is_personal_question report)
           ((first_bot_id, first_report) # reports) = []"
    and "\<not> (str_in ''$evan'' (lower message_text) \<and> has_bot ''bot2'' bots)"
    and "get_recent_conversations 500 = earlier @ JObj msg # later"
    and "no_bot_author rid earlier"
    and "py_eq (py_get msg ''message_id'') (JInt rid)"
    and "py_get msg ''sender_type'' = JStr ''bot''"
    and "py_get msg ''sender_id'' = JStr b"
    and "b \<noteq> []"
    and "has_bot b bots"
  shows "process_message_interest_after_delay rnd bots get_recent_conversations
           ((first_bot_id, first_report) # reports) = Done [(b, direct_reply_reason b)] True \<and>
         prefix ''direct_reply'' (direct_reply_reason b)"
proof -
  have found: "find_replied_bot rid (get_recent_conversations 500) = Some (JStr b)"
    using find_replied_bot_skip [OF assms(8), of "JObj msg # later"] assms(7,9,10,11,12)
    by (simp add: py_eq_def)
  have check: "reply_to_bot_check rid message_text bots (get_recent_conversations 500)
                 = Inl (Done [(b, direct_reply_reason b)] True)"
    using found assms(12,13) by (simp add: reply_to_bot_check_def)
  have chain: "routing_chain message_text (Some rid) bots get_recent_conversations
                 ((first_bot_id, first_report) # reports)
               = Inl (Done [(b, direct_reply_reason b)] True)"
    using assms(3,6) check by (simp add: routing_chain_def)
  have "process_message_interest_after_delay rnd bots get_recent_conversations
           ((first_bot_id, first_report) # reports) = Done [(b, direct_reply_reason b)] True"
    using assms(1,2,4,5) chain
    by (simp add: process_message_interest_after_delay_def Let_def)
  then show ?thesis
    using direct_reply_reason_prefix by simp
qed

theorem reply_chain_resolution_witness:
  "process_message_interest_after_delay (fixed_draws (1 / 2) (1 / 2)) bots3 history42
     [(''bot1'', mk_report ''bot1'' ''ok'' False False (Some 42)),
      (''bot3'', mk_report ''bot3'' ''ok'' True False (Some 42))]
     = Done [(''bot1'', ''direct_reply_to_btcmax'')] True"
proof -
  have spam: "\<not> is_spam ''ok''"
    by code_simp
  have evan: "\<not> (str_in ''$evan'' (lower ''ok'') \<and> has_bot ''bot2'' bots3)"
    by code_simp
  have hist: "history42 500 = [] @ JObj [(''message_id'', JInt 42), (''sender_type'', JStr ''bot''),
              (''sender_id'', JStr ''bot1''), (''message_text'', JStr ''gm'')] # []"
    by (simp add: history42_def last_n_def)
  have known: "has_bot ''bot1'' bots3"
    by code_simp
  have r1: "rep_message_text (mk_report ''bot1'' ''ok'' False False (Some 42)) = ''ok''"
    and r2: "rep_replied_to_message_id (mk_report ''bot1'' ''ok'' False False (Some 42)) = Some 42"
    and r3: "filter (\<lambda>(bot_id, report). rep_is_personal_question report)
           ((''bot1'', mk_report ''bot1'' ''ok'' False False (Some 42)) #
            [(''bot3'', mk_report ''bot3'' ''ok'' True False (Some 42))]) = []"
    by (simp_all add: mk_report_def)
  show ?thesis
    using reply_chain_resolution
            [where get_recent_conversations = history42 and rid = 42 and b = "''bot1''"
               and bots = bots3 and earlier = "[]" and later = "[]"
               and msg = "[(''message_id'', JInt 42), (''sender_type'', JStr ''bot''),
                           (''sender_id'', JStr ''bot1''), (''message_text'', JStr ''gm'')]"
               and rnd = "fixed_draws (1 / 2) (1 / 2)",
             OF r1 r2 _ spam r3 evan hist _ _ _ _ _ known]
    by (simp add: no_bot_author_def py_eq_def py_get_def direct_reply_reason_def)
qed

text \<open>
  The claim as stated, for every reply that is not spam, fails where an earlier branch
  decides: a reply to bot1's message 42 whose text is \<^verbatim>\<open>$evan\<close> is not spam, the lookup finds
  bot1, and the run selects bot2 with reason \<^verbatim>\<open>$evan_token_mention\<close>.
\<close>

theorem reply_precedence_counterexample:
  "\<not> is_spam ''$evan'' \<and>
   find_replied_bot 42 (history42 500) = Some (JStr ''bot1'') \<and>
   process_message_interest_after_delay (fixed_draws (1 / 2) (1 / 2)) bots3 history42
     [(''bot1'', mk_report ''bot1'' ''$evan'' False False (Some 42))]
     = Done [(''bot2'', ''$evan_token_mention'')] False"
  by code_simp
section \<open>Properties of the coordinator\<close>









lemma receive_report_merges:
  assumes "pending_interest_reports s (rep_message_id report) = Some b"
    and "bk_timer_handle b"
  shows "armed_timers (receive_report report s) = armed_timers s \<and>
         log_started (receive_report report s) = log_started s"
  using assms by (simp add: receive_report_def Let_def)




section \<open>Properties of the topic ledger\<close>

lemma filter_recent_entries:
  "filter_recent c (map entry_json es) = Some (map entry_json (filter (\<lambda>(q, t). t > c) es))"
  by (induction es) (auto simp: py_get_default_def)

lemma scan_topics_entries:
  "scan_topics ql b (map entry_json es) =
     Some (case find (\<lambda>(q, t). topic_match (lower q) ql) es of
             None \<Rightarrow> None
           | Some (q, t) \<Rightarrow> Some (b, lower q, JFloat t))"
  by (induction es) (auto simp: py_get_default_def Let_def)

lemma recent_by_bot_ledger:
  "recent_by_bot c (map (\<lambda>(b, es). (b, JList (map entry_json es))) ledger)
     = Some (map (\<lambda>(b, es). (b, map entry_json es)) (recent_rows c ledger))"
  by (induction ledger) (auto simp: filter_recent_entries recent_rows_def)

lemma find_match_iff:
  "find P es = None \<longleftrightarrow> \<not> list_ex P es"
  by (induction es) auto

lemma scan_bots_rows:
  "(\<exists>info. scan_bots ql (map (\<lambda>(b, es). (b, map entry_json es)) rows) = Some (Some info))
     \<longleftrightarrow> list_ex (\<lambda>(b, es). list_ex (\<lambda>(q, t). topic_match (lower q) ql) es) rows"
proof (induction rows)
  case Nil
  then show ?case by simp
next
  case (Cons row rows)
  obtain b es where row: "row = (b, es)"
    by (cases row)
  show ?case
  proof (cases "find (\<lambda>(q, t). topic_match (lower q) ql) es")
    case None
    then have "\<not> list_ex (\<lambda>(q, t). topic_match (lower q) ql) es"
      by (simp add: find_match_iff)
    with None Cons.IH show ?thesis
      by (simp add: row scan_topics_entries)
  next
    case (Some e)
    then have "list_ex (\<lambda>(q, t). topic_match (lower q) ql) es"
      using find_match_iff [of "\<lambda>(q, t). topic_match (lower q) ql" es] by simp
    with Some show ?thesis
      by (simp add: row scan_topics_entries split: prod.splits)
  qed
qed

lemma list_ex_filter_conj:
  "list_ex P (filter Q es) \<longleftrightarrow> list_ex (\<lambda>e. Q e \<and> P e) es"
  by (induction es) auto

lemma list_ex_nonempty: "list_ex P es \<Longrightarrow> es \<noteq> []"
  by (cases es) auto

lemma list_ex_recent_rows:
  "list_ex (\<lambda>(b, es). list_ex P es) (recent_rows c ledger)
     \<longleftrightarrow> list_ex (\<lambda>(b, es). list_ex (\<lambda>(q, t). t > c \<and> P (q, t)) es) ledger"
proof (induction ledger)
  case Nil
  then show ?case by (simp add: recent_rows_def)
next
  case (Cons row ledger)
  obtain b es where row: "row = (b, es)"
    by (cases row)
  have split: "recent_rows c (row # ledger)
                 = (if filter (\<lambda>(q, t). t > c) es \<noteq> []
                    then (b, filter (\<lambda>(q, t). t > c) es) # recent_rows c ledger
                    else recent_rows c ledger)"
    by (simp add: recent_rows_def row)
  have here: "list_ex P (filter (\<lambda>(q, t). t > c) es)
                \<longleftrightarrow> list_ex (\<lambda>(q, t). t > c \<and> P (q, t)) es"
    by (simp add: list_ex_filter_conj case_prod_unfold)
  show ?case
  proof (cases "filter (\<lambda>(q, t). t > c) es \<noteq> []")
    case True
    with split Cons.IH here show ?thesis
      by (simp add: row)
  next
    case False
    then have "\<not> list_ex P (filter (\<lambda>(q, t). t > c) es)"
      by simp
    with here have "\<not> list_ex (\<lambda>(q, t). t > c \<and> P (q, t)) es"
      by simp
    with False split Cons.IH show ?thesis
      by (simp add: row)
  qed
qed

text \<open>
  Claim C7 (topic-freshness matching), as the code has it. The only normalization is
  lower-casing. For a document whose ledger holds entries with a query string and a time,
  \<^verbatim>\<open>is_topic_recently_used\<close> answers true exactly when some entry of some bot is newer than
  \<open>now - 60 * minutes\<close> and its lower-cased query equals the lower-cased candidate or, the
  candidate being longer than 10 characters, one of the two contains the other. After
  adding \<^verbatim>\<open>Bitcoin price update, following market\<close> at time 1000, the lookup of
  \<^verbatim>\<open>bitcoin price update\<close> with a window of 10 minutes is true at time 1100 and false at time
  1601.
\<close>

theorem topic_freshness_matching:
  assumes "map_of d ''recent_topics'' = Some (ledger_json ledger)"
  shows "fst (is_topic_recently_used now topic_query minutes (JObj d)) \<longleftrightarrow>
         list_ex (\<lambda>(bot_id, entries).
                    list_ex (\<lambda>(q, t). t > now - of_int (minutes * 60) \<and>
                                      topic_match (lower q) (lower topic_query)) entries) ledger"
proof -
  let ?c = "now - of_int (minutes * 60)"
  have used: "get_recently_used_topics now minutes (JObj d)
                = map (\<lambda>(b, es). (b, map entry_json es)) (recent_rows ?c ledger)"
    using assms
    by (simp add: get_recently_used_topics_def ledger_json_def recent_by_bot_ledger)
  have "fst (is_topic_recently_used now topic_query minutes (JObj d)) \<longleftrightarrow>
          (\<exists>info. scan_bots (lower topic_query)
                     (map (\<lambda>(b, es). (b, map entry_json es)) (recent_rows ?c ledger))
                   = Some (Some info))"
    by (auto simp: is_topic_recently_used_def used Let_def split: option.splits)
  also have "\<dots> \<longleftrightarrow> list_ex (\<lambda>(b, es). list_ex (\<lambda>(q, t). topic_match (lower q) (lower topic_query)) es)
                        (recent_rows ?c ledger)"
    by (rule scan_bots_rows)
  also have "\<dots> \<longleftrightarrow> list_ex (\<lambda>(bot_id, entries).
                    list_ex (\<lambda>(q, t). t > ?c \<and> topic_match (lower q) (lower topic_query)) entries) ledger"
    using list_ex_recent_rows [of "\<lambda>(q, t). topic_match (lower q) (lower topic_query)" ?c ledger]
    by simp
  finally show ?thesis .
qed

theorem topic_freshness_matching_witness:
  "add_recently_used_topic ''agentA'' ''Bitcoin price update, following market'' 1000 default_data
     = Some (JObj [(''conversations'', JList []), (''user_data'', JObj []),
                   (''web_content'', JList []), (''recent_bot_topics'', JList []),
                   (''recent_topics'',
                    ledger_json [(''agentA'', [(''Bitcoin price update, following market'', 1000)])])]) \<and>
   fst (is_topic_recently_used 1100 ''bitcoin price update'' 10
         (JObj [(''conversations'', JList []), (''user_data'', JObj []),
                (''web_content'', JList []), (''recent_bot_topics'', JList []),
                (''recent_topics'',
                 ledger_json [(''agentA'', [(''Bitcoin price update, following market'', 1000)])])])) \<and>
   \<not> fst (is_topic_recently_used 1601 ''bitcoin price update'' 10
         (JObj [(''conversations'', JList []), (''user_data'', JObj []),
                (''web_content'', JList []), (''recent_bot_topics'', JList []),
                (''recent_topics'',
                 ledger_json [(''agentA'', [(''Bitcoin price update, following market'', 1000)])])]))"
proof -
  have a: "add_recently_used_topic ''agentA'' ''Bitcoin price update, following market'' 1000 default_data
     = Some (JObj [(''conversations'', JList []), (''user_data'', JObj []),
                   (''web_content'', JList []), (''recent_bot_topics'', JList []),
                   (''recent_topics'',
                    ledger_json [(''agentA'', [(''Bitcoin price update, following market'', 1000)])])])"
    by code_simp
  have m: "topic_match (lower ''Bitcoin price update, following market'') (lower ''bitcoin price update'')"
    by code_simp
  have k: "map_of [(''conversations'', JList []), (''user_data'', JObj []),
                   (''web_content'', JList []), (''recent_bot_topics'', JList []),
                   (''recent_topics'',
                    ledger_json [(''agentA'', [(''Bitcoin price update, following market'', 1000)])])]
              ''recent_topics''
            = Some (ledger_json [(''agentA'', [(''Bitcoin price update, following market'', 1000)])])"
    by simp
  show ?thesis
    using a m topic_freshness_matching [OF k, of 1100 "''bitcoin price update''" 10]
      topic_freshness_matching [OF k, of 1601 "''bitcoin price update''" 10]
    by simp
qed

text \<open>
  The claim as stated fails on punctuation: \<^verbatim>\<open>Bitcoin, price update\<close> and
  \<^verbatim>\<open>bitcoin price update\<close> are equal once punctuation is stripped, and the code reports no
  match within the window.
\<close>

theorem punctuation_counterexample:
  "spec_topic_match ''Bitcoin, price update'' ''bitcoin price update'' \<and>
   is_topic_recently_used 1100 ''bitcoin price update'' 10
     (JObj [(''recent_topics'', ledger_json [(''agentA'', [(''Bitcoin, price update'', 1000)])])])
     = (False, None)"
  by code_simp

section \<open>Properties of the store\<close>

lemma map_of_dict_set: "map_of (dict_set k v d) = (map_of d)(k \<mapsto> v)"
  by (induction d) (auto simp: fun_eq_iff)

lemma has_required_fields_iff:
  "has_required_fields d \<longleftrightarrow> (\<forall>k \<in> set required_fields. map_of d k \<noteq> None)"
  by (simp add: has_required_fields_def list_all_iff)



lemma py_copy_obj: "py_copy x = Some (JObj d) \<Longrightarrow> x = JObj d"
  by (cases x) auto




lemma new_store_cache_complete: "cache_complete (new_store fs)"
  by (simp add: cache_complete_def new_store_def)

lemma save_attempts_cache_complete:
  assumes "cache_complete s"
    and "\<forall>d. data = JObj d \<longrightarrow> has_required_fields d"
  shows "cache_complete (snd (save_attempts c file_path data ts now backup_ok io attempts s))"
  using assms(1)
proof (induction attempts arbitrary: s)
  case Nil
  then show ?case by simp
next
  case (Cons attempt rest)
  let ?fs1 = "if attempt = 0 then backup_before_save file_path ts backup_ok (files s) else files s"
  obtain snaps renamed where w: "write_attempt c file_path data now (io attempt) ?fs1 = (snaps, renamed)"
    by (cases "write_attempt c file_path data now (io attempt) ?fs1")
  have keep: "cache_complete (s\<lparr>files := fs\<rparr>)" for fs
    using Cons.prems by (simp add: cache_complete_def)
  have ih: "cache_complete (snd (save_attempts c file_path data ts now backup_ok io rest
                                      (s\<lparr>files := last (?fs1 # snaps)\<rparr>)))"
    by (rule Cons.IH [OF keep])
  show ?case
  proof (cases "if renamed then py_copy data else None")
    case None
    with w ih show ?thesis
      by (simp add: Let_def case_prod_beta del: last.simps split del: if_split)
  next
    case (Some copied)
    then have "py_copy data = Some copied"
      by (simp split: if_splits)
    then have "\<forall>d. copied = JObj d \<longrightarrow> has_required_fields d"
      using assms(2) py_copy_obj by blast
    then have "cache_complete (s\<lparr>files := fs, cached_data := Some copied, cache_timestamp := now\<rparr>)" for fs
      by (auto simp: cache_complete_def split: json.splits)
    with w Some show ?thesis
      by (simp add: Let_def del: last.simps split del: if_split)
  qed
qed

lemma save_data_cache_complete:
  assumes "cache_complete s"
    and "\<forall>d. data = JObj d \<longrightarrow> has_required_fields d"
  shows "cache_complete (snd (save_data c file_path data ts now backup_ok io s))"
  unfolding save_data_def using assms by (rule save_attempts_cache_complete)

lemma has_required_fields_dict_set:
  "has_required_fields d \<Longrightarrow> has_required_fields (dict_set k v d)"
  by (simp add: has_required_fields_iff map_of_dict_set)

lemma add_conversation_data_keeps_fields:
  assumes "has_required_fields d"
    and "add_conversation_data now m (JObj d) = Saved doc"
  shows "\<exists>d'. doc = JObj d' \<and> has_required_fields d'"
  using assms
  by (auto simp: add_conversation_data_def Let_def has_required_fields_dict_set
           split: option.splits bool.splits json.splits if_splits)

lemma add_recently_used_topic_keeps_fields:
  assumes "has_required_fields d"
    and "add_recently_used_topic bot_id topic_query current_time (JObj d) = Some doc"
  shows "\<exists>d'. doc = JObj d' \<and> has_required_fields d'"
  using assms
  by (auto simp: add_recently_used_topic_def Let_def has_required_fields_dict_set
           split: option.splits json.splits if_splits)













lemma tmp_differs: "file_path @ ''.tmp'' \<noteq> file_path"
  by simp









lemma restore_misses_backups_dir:
  assumes "CHR ''/'' \<notin> set file_path"
    and "p \<in> set (glob_star (file_path @ ''.backup.'') fs)"
  shows "\<not> prefix ''backups/'' p"
proof
  assume dir: "prefix ''backups/'' p"
  from assms(2) have pre: "prefix (file_path @ ''.backup.'') p"
    and nosep: "CHR ''/'' \<notin> set (drop (length (file_path @ ''.backup.'')) p)"
    by (auto simp: glob_star_def)
  from pre obtain r where r: "p = (file_path @ ''.backup.'') @ r"
    by (auto simp: prefix_def)
  then have "drop (length (file_path @ ''.backup.'')) p = r"
    by (metis append_eq_conv_conj)
  with nosep assms(1) r have "CHR ''/'' \<notin> set p"
    by auto
  moreover from dir have "CHR ''/'' \<in> set p"
    by (auto simp: prefix_def)
  ultimately show False
    by contradiction
qed

text \<open>
  Claim C3 (first recovery step). With the default file path, \<^verbatim>\<open>save_data\<close> puts the backup
  of the previous version under \<^verbatim>\<open>backups/\<close>, and \<^verbatim>\<open>_try_restore_from_backup\<close> looks for
  backups beside the primary file. In the example the store held \<open>doc1\<close>, \<open>doc2\<close> was saved
  (the backup holds \<open>doc1\<close>), and the primary file was then overwritten with \<^verbatim>\<open>{bad\<close>: the
  restore step finds no backup and changes nothing, the repair fails, and \<^verbatim>\<open>load_data\<close>
  returns the empty default document instead of \<open>doc1\<close>.
\<close>

theorem backup_not_restored:
  "content_at ''backups/shared_memory.json.backup.20250101000000'' (files store2_corrupted)
     = Some (toy_dumps doc1) \<and>
   content_at ''shared_memory.json'' (files store2_corrupted) = Some ''{bad'' \<and>
   try_restore_from_backup ''shared_memory.json'' (files store2_corrupted)
     = (files store2_corrupted, False) \<and>
   fst (load_data toy_codec ''shared_memory.json'' ''20250101000500'' 300 store2_corrupted)
     = Inr default_data"
  by code_simp

end
